theory Spec2Isabelle
  imports Main
begin

section \<open>Python values\<close>

text \<open>
  A Python \<open>str\<close> is modelled as a \<open>string\<close> whose characters are code points below 256
  (Latin-1), so \<open>length\<close> counts characters as Python's \<open>len\<close> and \<open>read(n)\<close> do.

  An exception is a value: its class name and its message (\<open>str(e)\<close>). \<open>Exception\<close> stands
  for every subclass of Python's \<open>Exception\<close>, \<open>BaseException\<close> for the others
  (\<open>KeyboardInterrupt\<close>, \<open>SystemExit\<close>), which \<open>except Exception\<close> does not catch. A function
  that may raise returns \<open>exn + 'a\<close>, with \<open>Inl\<close> the raised exception.
\<close>

datatype exn = Exception string string | BaseException string string

fun str_exn :: "exn \<Rightarrow> string" where
  "str_exn (Exception cls msg) = msg"
| "str_exn (BaseException cls msg) = msg"

text \<open>A decoded JSON value, as \<open>json.loads\<close> returns it; a \<open>dict\<close> keeps its insertion order.\<close>

datatype json =
    JNull
  | JBool bool
  | JNum int
  | JStr string
  | JArr "json list"
  | JObj "(string \<times> json) list"

subsection \<open>String methods\<close>

fun startswith :: "string \<Rightarrow> string \<Rightarrow> bool" where
  "startswith [] s = True"
| "startswith (p # ps) [] = False"
| "startswith (p # ps) (c # cs) = (p = c \<and> startswith ps cs)"

definition endswith :: "string \<Rightarrow> string \<Rightarrow> bool" where
  "endswith suf s = startswith (rev suf) (rev s)"

text \<open>\<open>sub in s\<close>: \<open>sub\<close> occurs in \<open>s\<close> as a contiguous substring.\<close>

fun contains :: "string \<Rightarrow> string \<Rightarrow> bool" where
  "contains sub [] = (sub = [])"
| "contains sub (c # cs) = (startswith sub (c # cs) \<or> contains sub cs)"

text \<open>The characters \<open>str.strip()\<close> removes: those with \<open>str.isspace()\<close> true, below 256.\<close>

definition is_space :: "char \<Rightarrow> bool" where
  "is_space c = (c \<in> set [CHR 0x09, CHR 0x0A, CHR 0x0B, CHR 0x0C, CHR 0x0D,
      CHR 0x1C, CHR 0x1D, CHR 0x1E, CHR 0x1F, CHR 0x20, CHR 0x85, CHR 0xA0])"

definition lstrip_chars :: "(char \<Rightarrow> bool) \<Rightarrow> string \<Rightarrow> string" where
  "lstrip_chars P s = dropWhile P s"

definition strip_chars :: "(char \<Rightarrow> bool) \<Rightarrow> string \<Rightarrow> string" where
  "strip_chars P s = rev (dropWhile P (rev (dropWhile P s)))"

definition py_strip :: "string \<Rightarrow> string" where
  "py_strip s = strip_chars is_space s"

text \<open>\<open>str.lower()\<close> on code points below 256: A-Z and the Latin-1 capitals.\<close>

definition lower_char :: "char \<Rightarrow> char" where
  "lower_char c =
     (let n = (of_char c :: nat)
      in if (65 \<le> n \<and> n \<le> 90) \<or> (192 \<le> n \<and> n \<le> 222 \<and> n \<noteq> 215)
         then char_of (n + 32) else c)"

definition py_lower :: "string \<Rightarrow> string" where
  "py_lower s = map lower_char s"

text \<open>\<open>s.split(sep)\<close> for a one-character separator: never the empty list.\<close>

fun py_split :: "char \<Rightarrow> string \<Rightarrow> string list" where
  "py_split sep [] = [[]]"
| "py_split sep (c # cs) =
     (if c = sep then [] # py_split sep cs
      else (case py_split sep cs of
              [] \<Rightarrow> [[c]]
            | w # ws \<Rightarrow> (c # w) # ws))"

text \<open>\<open>s.replace(old, new)\<close> for a one-character \<open>old\<close>.\<close>

definition replace_char :: "char \<Rightarrow> string \<Rightarrow> string \<Rightarrow> string" where
  "replace_char old new s = concat (map (\<lambda>c. if c = old then new else [c]) s)"

text \<open>\<open>sep.join(xs)\<close>.\<close>

fun py_join :: "string \<Rightarrow> string list \<Rightarrow> string" where
  "py_join sep [] = []"
| "py_join sep [x] = x"
| "py_join sep (x # y # ys) = x @ sep @ py_join sep (y # ys)"

text \<open>\<open>str(n)\<close> for a non-negative integer.\<close>

fun str_nat :: "nat \<Rightarrow> string" where
  "str_nat n =
     (if n < 10 then [char_of (48 + n)]
      else str_nat (n div 10) @ [char_of (48 + n mod 10)])"

declare str_nat.simps [simp del]

section \<open>The standard library's URL parser\<close>

text \<open>
  \<open>urllib.parse.urlparse\<close> (CPython 3.11), on \<open>str\<close> input with the default arguments. The
  validation of a bracketed host (\<open>_check_bracketed_host\<close>, which asks the \<open>ipaddress\<close>
  module) is a parameter: \<open>check_bracketed_host h\<close> is the exception it raises on \<open>h\<close>, if
  any. \<open>_checknetloc\<close> raises only when NFKC normalisation of the host produces one of
  \<open>/?#@:\<close>, which no code point below 256 does, so it is a no-op here.
\<close>

record parse_result =
  scheme :: string
  netloc :: string
  path :: string
  params :: string
  query :: string
  fragment :: string

definition is_c0_or_space :: "char \<Rightarrow> bool" where
  "is_c0_or_space c = ((of_char c :: nat) \<le> 32)"

definition is_unsafe_byte :: "char \<Rightarrow> bool" where
  "is_unsafe_byte c = (c \<in> set [CHR 0x09, CHR 0x0D, CHR 0x0A])"

definition is_ascii_alpha :: "char \<Rightarrow> bool" where
  "is_ascii_alpha c =
     (let n = (of_char c :: nat) in (65 \<le> n \<and> n \<le> 90) \<or> (97 \<le> n \<and> n \<le> 122))"

definition scheme_chars :: string where
  "scheme_chars = ''abcdefghijklmnopqrstuvwxyzABCDEFGHIJKLMNOPQRSTUVWXYZ0123456789+-.''"

definition uses_params :: "string list" where
  "uses_params = ['''', ''ftp'', ''hdl'', ''prospero'', ''http'', ''imap'',
     ''https'', ''shttp'', ''rtsp'', ''rtsps'', ''rtspu'', ''sip'',
     ''sips'', ''mms'', ''sftp'', ''tel'']"

text \<open>\<open>s.split(c, 1)\<close> when \<open>c\<close> occurs in \<open>s\<close>: the text before and after its first occurrence.\<close>

definition split_first :: "char \<Rightarrow> string \<Rightarrow> string \<times> string" where
  "split_first c s = (takeWhile (\<lambda>x. x \<noteq> c) s, drop 1 (dropWhile (\<lambda>x. x \<noteq> c) s))"

definition split_scheme :: "string \<Rightarrow> string \<times> string" where
  "split_scheme url =
     (let pre = takeWhile (\<lambda>x. x \<noteq> CHR '':'') url
      in if CHR '':'' \<in> set url \<and> pre \<noteq> [] \<and> is_ascii_alpha (hd url)
            \<and> (\<forall>c \<in> set pre. c \<in> set scheme_chars)
         then (py_lower pre, drop (length pre + 1) url)
         else ('''', url))"

definition is_netloc_delim :: "char \<Rightarrow> bool" where
  "is_netloc_delim c = (c \<in> set ''/?#'')"

definition splitnetloc :: "string \<Rightarrow> string \<times> string" where
  "splitnetloc url =
     (let rest = drop 2 url
      in (takeWhile (\<lambda>c. \<not> is_netloc_delim c) rest, dropWhile (\<lambda>c. \<not> is_netloc_delim c) rest))"

definition bracketed_host :: "string \<Rightarrow> string" where
  "bracketed_host nl =
     takeWhile (\<lambda>x. x \<noteq> CHR '']'') (drop 1 (dropWhile (\<lambda>x. x \<noteq> CHR ''['') nl))"

definition urlsplit :: "(string \<Rightarrow> exn option) \<Rightarrow> string \<Rightarrow> exn + parse_result" where
  "urlsplit check_bracketed_host url0 =
     (let url1 = filter (\<lambda>c. \<not> is_unsafe_byte c) (lstrip_chars is_c0_or_space url0);
          (sch, url2) = split_scheme url1;
          (nl, url3) = (if take 2 url2 = ''//'' then splitnetloc url2 else ('''', url2));
          lb = CHR ''['' \<in> set nl;
          rb = CHR '']'' \<in> set nl
      in if (lb \<and> \<not> rb) \<or> (rb \<and> \<not> lb) then Inl (Exception ''ValueError'' ''Invalid IPv6 URL'')
         else
           (case (if lb \<and> rb then check_bracketed_host (bracketed_host nl) else None) of
              Some ex \<Rightarrow> Inl ex
            | None \<Rightarrow>
                (let (url4, frag) =
                       (if CHR ''#'' \<in> set url3 then split_first (CHR ''#'') url3 else (url3, ''''));
                     (url5, qry) =
                       (if CHR ''?'' \<in> set url4 then split_first (CHR ''?'') url4 else (url4, ''''))
                 in Inr \<lparr>scheme = sch, netloc = nl, path = url5, params = '''', query = qry,
                         fragment = frag\<rparr>)))"

text \<open>
  \<open>_splitparams\<close>: the parameters start at the first \<open>;\<close> of the last path segment.
\<close>

definition splitparams :: "string \<Rightarrow> string \<times> string" where
  "splitparams url =
     (if CHR ''/'' \<in> set url then
        (let seg = rev (takeWhile (\<lambda>x. x \<noteq> CHR ''/'') (rev url));
             pre = take (length url - length seg) url
         in if CHR '';'' \<in> set seg
            then (pre @ takeWhile (\<lambda>x. x \<noteq> CHR '';'') seg, drop 1 (dropWhile (\<lambda>x. x \<noteq> CHR '';'') seg))
            else (url, ''''))
      else split_first (CHR '';'') url)"

definition urlparse :: "(string \<Rightarrow> exn option) \<Rightarrow> string \<Rightarrow> exn + parse_result" where
  "urlparse check_bracketed_host url =
     (case urlsplit check_bracketed_host url of
        Inl e \<Rightarrow> Inl e
      | Inr r \<Rightarrow>
          if scheme r \<in> set uses_params \<and> CHR '';'' \<in> set (path r)
          then (let (p, ps) = splitparams (path r) in Inr (r\<lparr>path := p, params := ps\<rparr>))
          else Inr r)"

section \<open>github_issues.py: parse_repo\<close>

text \<open>
  \<open>re.sub(r"\.git$", "", s)\<close>: \<open>$\<close> matches at the end of the string and just before a
  newline that ends the string.
\<close>

definition sub_git_suffix :: "string \<Rightarrow> string" where
  "sub_git_suffix s =
     (if endswith ''.git'' s then take (length s - 4) s
      else if endswith (''.git'' @ [CHR 0x0A]) s then take (length s - 5) s @ [CHR 0x0A]
      else s)"

definition path_parts :: "string \<Rightarrow> string list" where
  "path_parts p = filter (\<lambda>x. x \<noteq> []) (py_split (CHR ''/'') p)"

definition parse_repo :: "(string \<Rightarrow> exn option) \<Rightarrow> string \<Rightarrow> exn + (string \<times> string)" where
  "parse_repo check_bracketed_host repo_url =
     (case urlparse check_bracketed_host (py_strip repo_url) of
        Inl e \<Rightarrow> Inl e
      | Inr u \<Rightarrow>
          if py_lower (netloc u) \<noteq> ''github.com''
          then Inl (Exception ''ValueError'' ''Repo URL must be a github.com URL'')
          else
            (case path_parts (path u) of
               owner # name # rest \<Rightarrow> Inr (owner, sub_git_suffix name)
             | _ \<Rightarrow> Inl (Exception ''ValueError''
                        ''Repo URL must look like https://github.com/owner/repo'')))"

section \<open>The file system and the collaborators\<close>

text \<open>
  A checkout is a tree: a file with its decoded text (\<open>None\<close> when it cannot be read) or
  a directory with its entries in the order \<open>os.scandir\<close> lists them.
\<close>

datatype node = File "string option" | Dir "(string \<times> node) list"

fun is_dir :: "node \<Rightarrow> bool" where
  "is_dir (Dir es) = True"
| "is_dir (File c) = False"

text \<open>\<open>os.path.join(a, b)\<close> on POSIX.\<close>

definition path_join :: "string \<Rightarrow> string \<Rightarrow> string" where
  "path_join a b =
     (if startswith ''/'' b then b
      else if a = [] \<or> endswith ''/'' a then a @ b
      else a @ ''/'' @ b)"

text \<open>
  \<open>os.path.relpath(p, start)\<close> where \<open>p\<close> is \<open>start\<close> or \<open>start\<close> joined with further names,
  as every \<open>dirpath\<close> of \<open>os.walk(start)\<close> is.
\<close>

definition relpath :: "string \<Rightarrow> string \<Rightarrow> string" where
  "relpath p start = (if p = start then ''.'' else drop (length start + 1) p)"

text \<open>
  \<open>os.walk(dir)\<close>, top-down, errors ignored, links not followed: one triple
  \<open>(dirpath, dirnames, filenames)\<close> per directory.
\<close>

fun walk :: "string \<Rightarrow> node \<Rightarrow> (string \<times> string list \<times> string list) list"
  and walk_subdirs :: "string \<Rightarrow> (string \<times> node) list \<Rightarrow> (string \<times> string list \<times> string list) list"
where
  "walk dir (File c) = []"
| "walk dir (Dir es) =
     (dir, map fst (filter (\<lambda>(n, x). is_dir x) es), map fst (filter (\<lambda>(n, x). \<not> is_dir x) es))
       # walk_subdirs dir es"
| "walk_subdirs dir [] = []"
| "walk_subdirs dir ((name, x) # es) =
     (if is_dir x then walk (path_join dir name) x else []) @ walk_subdirs dir es"

text \<open>The JSON schema language, as far as \<open>REVIEW_SCHEMA\<close> uses it.\<close>

datatype schema =
    SString
  | SEnum "string list"
  | SArray schema "nat option" "nat option"
  | SObject "(string \<times> schema) list" "string list" bool

record model_request =
  rq_api_key :: string
  rq_model :: string
  rq_system :: string
  rq_repo_url :: string
  rq_file_tree :: string
  rq_key_files :: "(string \<times> string) list"
  rq_format_type :: string
  rq_format_name :: string
  rq_schema :: schema
  rq_strict :: bool

record http_request =
  hr_url :: string
  hr_headers :: "(string \<times> string) list"
  hr_json :: "(string \<times> json) list"
  hr_timeout :: nat

record http_response =
  status_code :: nat
  resp_text :: string

text \<open>
  What a request cannot see in its arguments: the library functions that are not modelled
  (\<open>json.loads\<close>, \<open>str()\<close> of a value that is not a string, the bracketed-host check of
  \<open>urlparse\<close>), the environment, and the collaborators (the candidate names of
  \<open>tempfile.mkdtemp\<close>, \<open>Repo.clone_from\<close>, the model provider, \<open>requests.post\<close>, and what
  becomes of a \<open>shutil.rmtree\<close>). A collaborator answers as a function of the request it
  receives: a value, or the exception it raises.

  \<open>shutil.rmtree(p, ignore_errors=True)\<close> has three outcomes. The tree is removed; or a
  removal fails with an error that \<open>ignore_errors\<close> swallows, and the call returns with
  the tree still in place; or the call raises what \<open>ignore_errors\<close> does not cover (a
  \<open>RecursionError\<close> on a tree nested deeper than the interpreter's recursion limit), again
  with the tree still in place.
\<close>

datatype rm_outcome = Removed | Ignored | Raised exn

record env =
  check_bracketed_host :: "string \<Rightarrow> exn option"
  json_loads :: "string \<Rightarrow> exn + json"
  str_of :: "json \<Rightarrow> string"
  openai_api_key :: "string option"
  tmp_dir :: string
  tmp_names :: "string list"
  clone_from :: "string \<Rightarrow> string \<Rightarrow> exn + node"
  responses_create :: "model_request \<Rightarrow> exn + string"
  requests_post :: "http_request \<Rightarrow> exn + http_response"
  rmtree_outcome :: "string \<Rightarrow> rm_outcome"

text \<open>
  The state a request changes: the scratch paths that exist, and the calls made to the
  file system and the network, in order.
\<close>

datatype effect =
    Mkdtemp string
  | CloneFrom string string
  | Rmtree string
  | ModelRequest model_request
  | HttpPost http_request

record sys =
  existing :: "string list"
  trace :: "effect list"

definition log :: "effect \<Rightarrow> sys \<Rightarrow> sys" where
  "log ev s = s\<lparr>trace := trace s @ [ev]\<rparr>"

text \<open>
  \<open>tempfile.mkdtemp(prefix=...)\<close>: the first candidate name whose path does not exist;
  \<open>FileExistsError\<close> when the candidates run out.
\<close>

definition mkdtemp :: "env \<Rightarrow> string \<Rightarrow> sys \<Rightarrow> (exn + string) \<times> sys" where
  "mkdtemp e prefix s =
     (case find (\<lambda>p. p \<notin> set (existing s))
             (map (\<lambda>n. path_join (tmp_dir e) (prefix @ n)) (tmp_names e)) of
        None \<Rightarrow> (Inl (Exception ''FileExistsError'' ''No usable temporary directory name found''), s)
      | Some p \<Rightarrow> (Inr p, log (Mkdtemp p) (s\<lparr>existing := existing s @ [p]\<rparr>)))"

text \<open>
  \<open>shutil.rmtree(p, ignore_errors=True)\<close>: the exception it raises, if any, and the state
  after it. Only when the tree is removed are \<open>p\<close> and everything below it gone.
\<close>

definition rmtree :: "env \<Rightarrow> string \<Rightarrow> sys \<Rightarrow> exn option \<times> sys" where
  "rmtree e p s =
     (case rmtree_outcome e p of
        Removed \<Rightarrow>
          (None, log (Rmtree p)
             (s\<lparr>existing := filter (\<lambda>q. q \<noteq> p \<and> \<not> startswith (p @ ''/'') q) (existing s)\<rparr>))
      | Ignored \<Rightarrow> (None, log (Rmtree p) s)
      | Raised ex \<Rightarrow> (Some ex, log (Rmtree p) s))"

text \<open>\<open>Repo.clone_from(url, dest, depth=1)\<close>: the checkout now at \<open>dest\<close>, or the exception.\<close>

definition clone :: "env \<Rightarrow> string \<Rightarrow> string \<Rightarrow> sys \<Rightarrow> (exn + node) \<times> sys" where
  "clone e url dest s =
     (case clone_from e url dest of
        Inl ex \<Rightarrow> (Inl ex, log (CloneFrom url dest) s)
      | Inr tree \<Rightarrow> (Inr tree, log (CloneFrom url dest) (s\<lparr>existing := existing s @ [dest]\<rparr>)))"

section \<open>main.py: the evidence extractor and the heuristic scanner\<close>

text \<open>A \<open>dict\<close> with string keys is an association list in insertion order, keys distinct.\<close>

definition dict_has :: "(string \<times> 'v) list \<Rightarrow> string \<Rightarrow> bool" where
  "dict_has d k = (map_of d k \<noteq> None)"

fun dict_set :: "(string \<times> 'v) list \<Rightarrow> string \<Rightarrow> 'v \<Rightarrow> (string \<times> 'v) list" where
  "dict_set [] k v = [(k, v)]"
| "dict_set ((k', v') # d) k v = (if k' = k then (k, v) # d else (k', v') # dict_set d k v)"

definition safe_repo_name :: "env \<Rightarrow> string \<Rightarrow> exn + string" where
  "safe_repo_name e repo_url =
     (case urlparse (check_bracketed_host e) repo_url of
        Inl ex \<Rightarrow> Inl ex
      | Inr p \<Rightarrow>
          (let n = replace_char (CHR ''/'') ''__'' (strip_chars (\<lambda>c. c = CHR ''/'') (path p))
           in Inr (if n = [] then ''repo'' else n)))"

text \<open>
  \<open>read_text_file\<close>, given what is at the path: at most \<open>max_chars\<close> characters of a
  readable file, and the empty string for whatever \<open>open\<close> or \<open>read\<close> raises on.
\<close>

fun read_text_file :: "node option \<Rightarrow> nat \<Rightarrow> string" where
  "read_text_file (Some (File (Some content))) max_chars = take max_chars content"
| "read_text_file _ max_chars = []"

definition skip :: "string list" where
  "skip = [''.git'', ''node_modules'', ''__pycache__'', ''.venv'', ''dist'', ''build'']"

definition important :: "string list" where
  "important = [''README.md'', ''LICENSE'', ''.env.example'',
     ''pyproject.toml'', ''requirements.txt'',
     ''Dockerfile'', ''.github'', ''SECURITY.md'']"

definition DIRECTORY_PRESENT :: string where
  "DIRECTORY_PRESENT = ''DIRECTORY_PRESENT''"

text \<open>The inner loop of the walk: the files of one directory, until \<open>max_files\<close> is reached.\<close>

fun add_files :: "nat \<Rightarrow> string \<Rightarrow> string list \<Rightarrow> string list \<Rightarrow> string list" where
  "add_files max_files rel [] files = files"
| "add_files max_files rel (fn # fns) files =
     (if length files \<ge> max_files then files
      else add_files max_files rel fns (files @ [path_join rel fn]))"

fun collect_files ::
  "string \<Rightarrow> nat \<Rightarrow> (string \<times> string list \<times> string list) list \<Rightarrow> string list \<Rightarrow> string list"
where
  "collect_files root max_files [] files = files"
| "collect_files root max_files ((dirpath, dirnames, filenames) # ws) files =
     (if list_ex (\<lambda>s. contains s dirpath) skip then collect_files root max_files ws files
      else collect_files root max_files ws
             (add_files max_files (relpath dirpath root) filenames files))"

text \<open>\<open>os.path.exists(os.path.join(root, name))\<close> for a plain name: the entry of the root.\<close>

fun lookup_entry :: "node \<Rightarrow> string \<Rightarrow> node option" where
  "lookup_entry (Dir es) name = map_of es name"
| "lookup_entry (File c) name = None"

fun read_key_files :: "node \<Rightarrow> string list \<Rightarrow> (string \<times> string) list \<Rightarrow> (string \<times> string) list" where
  "read_key_files tree [] key_contents = key_contents"
| "read_key_files tree (name # names) key_contents =
     read_key_files tree names
       (case lookup_entry tree name of
          None \<Rightarrow> key_contents
        | Some p \<Rightarrow>
            dict_set key_contents name
              (if is_dir p then DIRECTORY_PRESENT else read_text_file (Some p) 8000))"

text \<open>\<open>walk_repo_summary(root, max_files)\<close>, with \<open>tree\<close> what is at \<open>root\<close>.\<close>

definition walk_repo_summary ::
  "string \<Rightarrow> node \<Rightarrow> nat \<Rightarrow> string list \<times> (string \<times> string) list" where
  "walk_repo_summary root tree max_files =
     (let files = collect_files root max_files (walk root tree) [];
          key_contents = read_key_files tree important []
      in (take max_files files, key_contents))"

definition quickwin_readme :: string where
  "quickwin_readme = ''Add a README.md with setup and usage instructions.''"

definition quickwin_env :: string where
  "quickwin_env = ''Add a .env.example for environment variables.''"

definition quickwin_docker :: string where
  "quickwin_docker = ''Add a Dockerfile for reproducible builds.''"

definition risk_license :: string where
  "risk_license = ''No LICENSE file found.''"

definition risk_tests :: string where
  "risk_tests = ''No obvious tests detected.''"

definition finding_large :: string where
  "finding_large = ''Large repo: consider adding docs/architecture.md.''"

definition basic_heuristics ::
  "string list \<Rightarrow> (string \<times> string) list \<Rightarrow> string list \<times> string list \<times> string list" where
  "basic_heuristics files key_contents =
     (let findings = []; quickwins = []; risks = [];
          quickwins = (if \<not> dict_has key_contents ''README.md''
                       then quickwins @ [quickwin_readme] else quickwins);
          quickwins = (if \<not> dict_has key_contents ''.env.example''
                       then quickwins @ [quickwin_env] else quickwins);
          quickwins = (if \<not> dict_has key_contents ''Dockerfile''
                       then quickwins @ [quickwin_docker] else quickwins);
          risks = (if \<not> dict_has key_contents ''LICENSE''
                   then risks @ [risk_license] else risks);
          risks = (if \<not> list_ex (\<lambda>f. contains ''test'' (py_lower f)) files
                   then risks @ [risk_tests] else risks);
          findings = (if length files > 180
                      then findings @ [finding_large] else findings)
      in (findings, quickwins, risks))"

section \<open>ai_review.py: the review requester\<close>

definition SYSTEM_PROMPT :: string where
  "SYSTEM_PROMPT = py_join [CHR 0x0A]
     [''You are RepoDoctor, a strict senior engineer.'',
      '''',
      ''Rules:'',
      ''- Use ONLY the provided file tree + key file contents as evidence.'',
      ''- If you can'' @ [CHR 0x27] @ ''t verify something from the provided data, do NOT claim it.'',
      ''- Produce EXACTLY 5 issues in top_5.'',
      ''- Every issue must include evidence (file path + short snippet or concrete clue).'',
      ''- Every issue must include a concrete fix (specific steps or edits).'',
      '''',
      ''Return ONLY valid JSON matching the schema. No markdown.'',
      '''']"

definition SEVERITIES :: "string list" where
  "SEVERITIES = [''critical'', ''high'', ''medium'', ''low'']"

definition ISSUE_FIELDS :: "string list" where
  "ISSUE_FIELDS = [''title'', ''severity'', ''evidence'', ''fix'']"

definition REVIEW_SCHEMA :: schema where
  "REVIEW_SCHEMA =
     SObject
       [(''one_liner'', SString),
        (''top_5'',
           SArray
             (SObject
                [(''title'', SString),
                 (''severity'', SEnum SEVERITIES),
                 (''evidence'', SString),
                 (''fix'', SString)]
                ISSUE_FIELDS False)
             (Some 5) (Some 5)),
        (''next_7_days_plan'', SArray SString None None)]
       [''one_liner'', ''top_5'', ''next_7_days_plan'']
       False"

text \<open>
  A value validates against a schema: \<open>type\<close>, \<open>enum\<close>, \<open>items\<close>, \<open>minItems\<close>, \<open>maxItems\<close>,
  \<open>properties\<close>, \<open>required\<close> and \<open>additionalProperties\<close>, as JSON Schema defines them.
\<close>

fun at_least :: "nat option \<Rightarrow> nat \<Rightarrow> bool" where
  "at_least None n = True"
| "at_least (Some m) n = (m \<le> n)"

fun at_most :: "nat option \<Rightarrow> nat \<Rightarrow> bool" where
  "at_most None n = True"
| "at_most (Some m) n = (n \<le> m)"

fun conforms :: "schema \<Rightarrow> json \<Rightarrow> bool" where
  "conforms SString (JStr s) = True"
| "conforms (SEnum vs) (JStr s) = (s \<in> set vs)"
| "conforms (SArray item mn mx) (JArr xs) =
     (at_least mn (length xs) \<and> at_most mx (length xs) \<and> list_all (conforms item) xs)"
| "conforms (SObject props req additional) (JObj d) =
     (list_all (dict_has d) req \<and>
      list_all (\<lambda>(k, v). case map_of props k of
                           Some sch \<Rightarrow> conforms sch v
                         | None \<Rightarrow> additional) d)"
| "conforms sch j = False"

text \<open>The request \<open>client.responses.create\<close> receives, built from the evidence.\<close>

definition review_request ::
  "string \<Rightarrow> string \<Rightarrow> string list \<Rightarrow> (string \<times> string) list \<Rightarrow> model_request" where
  "review_request api_key repo_url file_tree key_files =
     (let file_tree_text = py_join [CHR 0x0A] (take 200 file_tree);
          key_file_snips =
            map (\<lambda>(name, content).
                   (name, if content = DIRECTORY_PRESENT then DIRECTORY_PRESENT
                          else take 4000 content)) key_files
      in \<lparr>rq_api_key = api_key, rq_model = ''gpt-4o-mini'',
          rq_system = SYSTEM_PROMPT, rq_repo_url = repo_url,
          rq_file_tree = file_tree_text, rq_key_files = key_file_snips,
          rq_format_type = ''json_schema'', rq_format_name = ''repo_review'',
          rq_schema = REVIEW_SCHEMA, rq_strict = True\<rparr>)"

definition call_ai_review ::
  "env \<Rightarrow> string \<Rightarrow> string list \<Rightarrow> (string \<times> string) list \<Rightarrow> sys \<Rightarrow> (exn + json) \<times> sys" where
  "call_ai_review e repo_url file_tree key_files s =
     (let api_key = (case openai_api_key e of None \<Rightarrow> [] | Some k \<Rightarrow> k)
      in if api_key = []
         then (Inl (Exception ''RuntimeError''
                      ''OPENAI_API_KEY missing. Put it in repodoctor/.env''), s)
         else
           (let rq = review_request api_key repo_url file_tree key_files;
                s1 = log (ModelRequest rq) s
            in case responses_create e rq of
                 Inl ex \<Rightarrow> (Inl ex, s1)
               | Inr output_text \<Rightarrow> (json_loads e output_text, s1)))"

section \<open>main.py: the analyze entry point\<close>

record analysis =
  res_repo_url :: string
  file_count_sampled :: nat
  key_files_found :: "string list"
  findings :: "string list"
  quick_wins :: "string list"
  risks :: "string list"
  next_steps :: "string list"
  openai_key_present :: bool
  ai_error :: "string option"
  ai_review :: json

datatype response = ErrorResponse string | AnalysisResult analysis

definition NEXT_STEPS :: "string list" where
  "NEXT_STEPS = [''Add CI + basic tests'', ''Document env vars and run steps'',
     ''Add Docker'', ''Run a dependency security audit'']"

text \<open>
  The body of the \<open>try\<close> block. \<open>ai_review\<close> starts as \<open>None\<close> (\<open>JNull\<close>); the inner handler
  catches \<open>Exception\<close> only.
\<close>

definition analyze_body :: "env \<Rightarrow> string \<Rightarrow> string \<Rightarrow> sys \<Rightarrow> (exn + response) \<times> sys" where
  "analyze_body e repo_url dest s =
     (case clone e repo_url dest s of
        (Inl ex, s1) \<Rightarrow> (Inl ex, s1)
      | (Inr tree, s1) \<Rightarrow>
          (let (files, key_contents) = walk_repo_summary dest tree 200;
               (fs, qs, rs) = basic_heuristics files key_contents
           in case call_ai_review e repo_url files key_contents s1 of
                (Inl (BaseException cls msg), s2) \<Rightarrow> (Inl (BaseException cls msg), s2)
              | (r, s2) \<Rightarrow>
                  (let (review, err) =
                         (case r of
                            Inr j \<Rightarrow> (j, None)
                          | Inl ex \<Rightarrow> (JNull, Some (str_exn ex)))
                   in (Inr (AnalysisResult
                         \<lparr>res_repo_url = repo_url,
                          file_count_sampled = length files,
                          key_files_found = map fst key_contents,
                          findings = fs,
                          quick_wins = qs,
                          risks = rs,
                          next_steps = NEXT_STEPS,
                          openai_key_present =
                            (case openai_api_key e of None \<Rightarrow> False | Some k \<Rightarrow> k \<noteq> []),
                          ai_error = err,
                          ai_review = review\<rparr>), s2))))"

definition GITHUB_PREFIX :: string where
  "GITHUB_PREFIX = ''https://github.com/''"

text \<open>
  The \<open>finally\<close> block runs however the \<open>try\<close> block was left; an exception raised in it
  replaces the value returned or the exception raised there.
\<close>

definition analyze_repo :: "env \<Rightarrow> string \<Rightarrow> sys \<Rightarrow> (exn + response) \<times> sys" where
  "analyze_repo e req_repo_url s =
     (let repo_url = py_strip req_repo_url
      in if \<not> startswith GITHUB_PREFIX repo_url
         then (Inr (ErrorResponse ''Invalid GitHub repo URL''), s)
         else
           (case mkdtemp e ''repodoctor_'' s of
              (Inl ex, s1) \<Rightarrow> (Inl ex, s1)
            | (Inr tmp_root, s1) \<Rightarrow>
                (case safe_repo_name e repo_url of
                   Inl ex \<Rightarrow> (Inl ex, s1)
                 | Inr name \<Rightarrow>
                     (let dest = path_join tmp_root name;
                          (r, s2) = analyze_body e repo_url dest s1;
                          (raised, s3) = rmtree e tmp_root s2
                      in (case raised of
                            Some ex \<Rightarrow> (Inl ex, s3)
                          | None \<Rightarrow> (r, s3))))))"

section \<open>github_issues.py and main.py: publishing issues\<close>

definition quoted :: "string \<Rightarrow> string" where
  "quoted s = [CHR 0x27] @ s @ [CHR 0x27]"

text \<open>\<open>d[k]\<close> on a \<open>dict\<close>, and on any decoded JSON value.\<close>

definition dict_getitem :: "(string \<times> 'v) list \<Rightarrow> string \<Rightarrow> exn + 'v" where
  "dict_getitem d k =
     (case map_of d k of
        None \<Rightarrow> Inl (Exception ''KeyError'' (quoted k))
      | Some v \<Rightarrow> Inr v)"

fun json_getitem :: "json \<Rightarrow> string \<Rightarrow> exn + json" where
  "json_getitem (JObj d) k = dict_getitem d k"
| "json_getitem (JArr xs) k =
     Inl (Exception ''TypeError'' ''list indices must be integers or slices, not str'')"
| "json_getitem (JStr s) k =
     Inl (Exception ''TypeError'' (''string indices must be integers, not '' @ quoted ''str''))"
| "json_getitem (JNum n) k =
     Inl (Exception ''TypeError'' (quoted ''int'' @ '' object is not subscriptable''))"
| "json_getitem (JBool b) k =
     Inl (Exception ''TypeError'' (quoted ''bool'' @ '' object is not subscriptable''))"
| "json_getitem JNull k =
     Inl (Exception ''TypeError'' (quoted ''NoneType'' @ '' object is not subscriptable''))"

text \<open>The request \<open>requests.post\<close> receives.\<close>

definition issue_request :: "string \<Rightarrow> string \<Rightarrow> string \<Rightarrow> json \<Rightarrow> string \<Rightarrow> http_request" where
  "issue_request token owner repo title body =
     \<lparr>hr_url = ''https://api.github.com/repos/'' @ owner @ ''/'' @ repo @ ''/issues'',
      hr_headers = [(''Authorization'', ''token '' @ token),
                    (''Accept'', ''application/vnd.github+json'')],
      hr_json = [(''title'', title), (''body'', JStr body)],
      hr_timeout = 30\<rparr>"

definition create_issue ::
  "env \<Rightarrow> string \<Rightarrow> string \<Rightarrow> string \<Rightarrow> json \<Rightarrow> string \<Rightarrow> sys \<Rightarrow> (exn + json) \<times> sys" where
  "create_issue e token owner repo title body s =
     (let rq = issue_request token owner repo title body;
          s1 = log (HttpPost rq) s
      in case requests_post e rq of
           Inl ex \<Rightarrow> (Inl ex, s1)
         | Inr r \<Rightarrow>
             if status_code r \<ge> 400
             then (Inl (Exception ''RuntimeError''
                     (''GitHub API error '' @ str_nat (status_code r) @ '': ''
                        @ take 300 (resp_text r))), s1)
             else (json_loads e (resp_text r), s1))"

record create_issues_request =
  cir_repo_url :: string
  cir_github_token :: string
  cir_issues :: "(string \<times> json) list list"

text \<open>A replacement field of an f-string: the value itself when it is a \<open>str\<close>.\<close>

definition format_field :: "env \<Rightarrow> json \<Rightarrow> string" where
  "format_field e v = (case v of JStr s \<Rightarrow> s | _ \<Rightarrow> str_of e v)"

definition issue_body :: "env \<Rightarrow> (string \<times> json) list \<Rightarrow> exn + string" where
  "issue_body e it =
     (case dict_getitem it ''severity'' of
        Inl ex \<Rightarrow> Inl ex
      | Inr sev \<Rightarrow>
          (case dict_getitem it ''evidence'' of
             Inl ex \<Rightarrow> Inl ex
           | Inr ev \<Rightarrow>
               (case dict_getitem it ''fix'' of
                  Inl ex \<Rightarrow> Inl ex
                | Inr fx \<Rightarrow>
                    Inr (''**Severity:** '' @ format_field e sev @ [CHR 0x0A, CHR 0x0A]
                         @ ''**Evidence:**'' @ [CHR 0x0A] @ format_field e ev @ [CHR 0x0A, CHR 0x0A]
                         @ ''**Suggested fix:**'' @ [CHR 0x0A] @ format_field e fx @ [CHR 0x0A, CHR 0x0A]
                         @ ''_Created by RepoDoctor_''))))"

text \<open>The loop of \<open>create_issues\<close> over \<open>req.issues[:5]\<close>, with \<open>created\<close> so far.\<close>

fun create_loop ::
  "env \<Rightarrow> string \<Rightarrow> string \<Rightarrow> string \<Rightarrow> (string \<times> json) list list \<Rightarrow> json list \<Rightarrow> sys
     \<Rightarrow> (exn + json list) \<times> sys" where
  "create_loop e token owner repo [] created s = (Inr created, s)"
| "create_loop e token owner repo (it # its) created s =
     (case issue_body e it of
        Inl ex \<Rightarrow> (Inl ex, s)
      | Inr body \<Rightarrow>
          (case dict_getitem it ''title'' of
             Inl ex \<Rightarrow> (Inl ex, s)
           | Inr title \<Rightarrow>
               (case create_issue e (py_strip token) owner repo title body s of
                  (Inl ex, s1) \<Rightarrow> (Inl ex, s1)
                | (Inr issue, s1) \<Rightarrow>
                    (case json_getitem issue ''html_url'' of
                       Inl ex \<Rightarrow> (Inl ex, s1)
                     | Inr u \<Rightarrow> create_loop e token owner repo its (created @ [u]) s1))))"

definition create_issues :: "env \<Rightarrow> create_issues_request \<Rightarrow> sys \<Rightarrow> (exn + json list) \<times> sys" where
  "create_issues e req s =
     (case parse_repo (check_bracketed_host e) (cir_repo_url req) of
        Inl ex \<Rightarrow> (Inl ex, s)
      | Inr (owner, repo) \<Rightarrow>
          create_loop e (cir_github_token req) owner repo (take 5 (cir_issues req)) [] s)"


section \<open>Predicates of the statements and sample inputs\<close>

text \<open>A key-file entry is the directory sentinel or a text of at most \<open>max_chars\<close> characters.\<close>

definition value_bounded :: "nat \<Rightarrow> string \<times> string \<Rightarrow> bool" where
  "value_bounded max_chars kv = (snd kv = DIRECTORY_PRESENT \<or> length (snd kv) \<le> max_chars)"

text \<open>A small checkout: two key files, a workflow directory, a source directory with build output.\<close>

definition tree0 :: node where
  "tree0 = Dir [(''README.md'', File (Some ''# demo'')),
                (''.github'', Dir [(''ci.yml'', File (Some ''on: push''))]),
                (''LICENSE'', File None),
                (''src'', Dir [(''app.py'', File (Some ''print(1)'')),
                               (''build'', Dir [(''out.o'', File None)])])]"

text \<open>Some path of the listing contains \<open>test\<close>, whatever the case of its letters.\<close>

definition mentions_test :: "string list \<Rightarrow> bool" where
  "mentions_test files = list_ex (\<lambda>f. contains ''test'' (py_lower f)) files"


definition files5 :: "string list" where
  "files5 = [''./main.py'', ''./setup.cfg'', ''src/app.py'', ''src/Util.py'', ''docs/index.md'']"

text \<open>
  A URL text without query, fragment or parameter delimiters and without the characters
  \<open>urlsplit\<close> deletes; a path segment is such a text, not empty and without \<open>/\<close>.
\<close>

definition url_plain :: "string \<Rightarrow> bool" where
  "url_plain s = (\<forall>c \<in> set s. c \<notin> set ''?#;'' \<and> \<not> is_unsafe_byte c)"

definition segment :: "string \<Rightarrow> bool" where
  "segment s = (s \<noteq> [] \<and> url_plain s \<and> CHR ''/'' \<notin> set s)"

text \<open>
  A bracketed-host check that rejects every host; the sample URLs have no bracketed host,
  so it is never asked.
\<close>

definition no_bracketed_host :: "string \<Rightarrow> exn option" where
  "no_bracketed_host h = Some (Exception ''ValueError'' ''Invalid IPv6 URL'')"

subsection \<open>Sample collaborators\<close>

text \<open>
  The sample environments answer with JSON texts. \<open>json_text\<close> writes a value the way
  \<open>json.dumps\<close> does (for strings that need no escape), and the sample \<open>json.loads\<close> reads
  back exactly the texts of \<open>sample_values\<close>, raising on anything else.
\<close>

definition dq :: string where
  "dq = [CHR 0x22]"

definition str_int :: "int \<Rightarrow> string" where
  "str_int i = (if i < 0 then ''-'' @ str_nat (nat (- i)) else str_nat (nat i))"

fun json_text :: "json \<Rightarrow> string" where
  "json_text JNull = ''null''"
| "json_text (JBool b) = (if b then ''true'' else ''false'')"
| "json_text (JNum i) = str_int i"
| "json_text (JStr s) = dq @ s @ dq"
| "json_text (JArr xs) = ''['' @ py_join '', '' (map json_text xs) @ '']''"
| "json_text (JObj d) =
     ''{'' @ py_join '', '' (map (\<lambda>(k, v). dq @ k @ dq @ '': '' @ json_text v) d) @ ''}''"

definition issue_url :: "string \<Rightarrow> string" where
  "issue_url n = ''https://github.com/o/r/issues/'' @ n"

definition created_issue :: "string \<Rightarrow> json" where
  "created_issue n = JObj [(''html_url'', JStr (issue_url n)), (''title'', JStr n)]"

definition sample_issue :: "string \<Rightarrow> string \<Rightarrow> string \<Rightarrow> string \<Rightarrow> json" where
  "sample_issue t sev ev fx =
     JObj [(''title'', JStr t), (''severity'', JStr sev), (''evidence'', JStr ev), (''fix'', JStr fx)]"

text \<open>A review that satisfies \<open>REVIEW_SCHEMA\<close> and has content.\<close>

definition review_ok :: json where
  "review_ok =
     JObj [(''one_liner'', JStr ''Small demo without tests''),
           (''top_5'', JArr
              [sample_issue ''No tests'' ''high'' ''src/app.py'' ''Add pytest'',
               sample_issue ''No license text'' ''medium'' ''LICENSE'' ''Add a license'',
               sample_issue ''No CI'' ''medium'' ''.github'' ''Add a workflow'',
               sample_issue ''Thin README'' ''low'' ''README.md'' ''Document setup'',
               sample_issue ''No Dockerfile'' ''low'' ''file tree'' ''Add a Dockerfile'']),
           (''next_7_days_plan'', JArr [JStr ''Add tests'', JStr ''Add CI''])]"

text \<open>A review that satisfies \<open>REVIEW_SCHEMA\<close> although the first issue's texts are empty.\<close>

definition review_empty_fields :: json where
  "review_empty_fields =
     JObj [(''one_liner'', JStr ''''),
           (''top_5'', JArr
              [sample_issue '''' ''low'' '''' '''',
               sample_issue ''No license text'' ''medium'' ''LICENSE'' ''Add a license'',
               sample_issue ''No CI'' ''medium'' ''.github'' ''Add a workflow'',
               sample_issue ''Thin README'' ''low'' ''README.md'' ''Document setup'',
               sample_issue ''No Dockerfile'' ''low'' ''file tree'' ''Add a Dockerfile'']),
           (''next_7_days_plan'', JArr [])]"

definition moved_body :: json where
  "moved_body = JObj [(''message'', JStr ''Moved Permanently'')]"

definition sample_values :: "json list" where
  "sample_values =
     map created_issue [''1'', ''2'', ''3'', ''4'', ''5'', ''6'', ''7'']
       @ [review_ok, review_empty_fields, moved_body]"

definition sample_json_loads :: "string \<Rightarrow> exn + json" where
  "sample_json_loads t =
     (case find (\<lambda>j. json_text j = t) sample_values of
        Some j \<Rightarrow> Inr j
      | None \<Rightarrow> Inl (Exception ''JSONDecodeError'' ''Expecting value: line 1 column 1 (char 0)''))"

text \<open>\<open>str()\<close> of the scalars; the sample issue records hold no lists or dicts.\<close>

fun sample_str_of :: "json \<Rightarrow> string" where
  "sample_str_of JNull = ''None''"
| "sample_str_of (JBool b) = (if b then ''True'' else ''False'')"
| "sample_str_of (JNum i) = str_int i"
| "sample_str_of (JStr s) = s"
| "sample_str_of j = json_text j"

text \<open>
  A tracker that creates the issue, answering 201 with the issue's URL, when the title is
  a string, and answers 422 otherwise.
\<close>

definition sample_post :: "http_request \<Rightarrow> exn + http_response" where
  "sample_post rq =
     (case map_of (hr_json rq) ''title'' of
        Some (JStr t) \<Rightarrow> Inr \<lparr>status_code = 201, resp_text = json_text (created_issue t)\<rparr>
      | _ \<Rightarrow> Inr \<lparr>status_code = 422, resp_text = ''Validation Failed''\<rparr>)"

text \<open>
  The sample environment: credentials present, the checkout \<open>tree0\<close>, a model that answers
  with \<open>review_ok\<close>, the tracker above, and scratch trees that are removed.
\<close>

definition env_ok :: env where
  "env_ok =
     \<lparr>check_bracketed_host = no_bracketed_host,
      json_loads = sample_json_loads,
      str_of = sample_str_of,
      openai_api_key = Some ''sk-test'',
      tmp_dir = ''/tmp'',
      tmp_names = [''x1'', ''x2''],
      clone_from = (\<lambda>url dest. Inr tree0),
      responses_create = (\<lambda>rq. Inr (json_text review_ok)),
      requests_post = sample_post,
      rmtree_outcome = (\<lambda>p. Removed)\<rparr>"

definition sys0 :: sys where
  "sys0 = \<lparr>existing = [], trace = []\<rparr>"

text \<open>A tracker that answers 301 with a JSON body, and one that answers 404.\<close>

definition env_moved :: env where
  "env_moved =
     env_ok\<lparr>requests_post := (\<lambda>rq. Inr \<lparr>status_code = 301, resp_text = json_text moved_body\<rparr>)\<rparr>"

definition env_not_found :: env where
  "env_not_found =
     env_ok\<lparr>requests_post := (\<lambda>rq. Inr \<lparr>status_code = 404, resp_text = ''Not Found''\<rparr>)\<rparr>"

text \<open>Seven issue records, titled 1 to 7.\<close>

definition issue_record :: "string \<Rightarrow> (string \<times> json) list" where
  "issue_record n =
     [(''title'', JStr n), (''severity'', JStr ''low''), (''evidence'', JStr ''file tree''),
      (''fix'', JStr ''Fix it'')]"

definition request7 :: create_issues_request where
  "request7 =
     \<lparr>cir_repo_url = ''https://github.com/o/r'',
      cir_github_token = '' ghp_token '',
      cir_issues = map issue_record [''1'', ''2'', ''3'', ''4'', ''5'', ''6'', ''7'']\<rparr>"

text \<open>The requests a trace records as sent to the tracker, in order.\<close>

fun posts :: "effect list \<Rightarrow> http_request list" where
  "posts [] = []"
| "posts (HttpPost rq # evs) = rq # posts evs"
| "posts (ev # evs) = posts evs"

text \<open>
  The request the publish loop sends for one issue record, when the record has the four
  fields; what \<open>create_issue\<close> makes of the tracker's answer to a request; and the
  identifier the loop reads from it.
\<close>

definition issue_post ::
  "env \<Rightarrow> string \<Rightarrow> string \<Rightarrow> string \<Rightarrow> (string \<times> json) list \<Rightarrow> exn + http_request" where
  "issue_post e token owner repo it =
     (case issue_body e it of
        Inl ex \<Rightarrow> Inl ex
      | Inr body \<Rightarrow>
          (case dict_getitem it ''title'' of
             Inl ex \<Rightarrow> Inl ex
           | Inr title \<Rightarrow> Inr (issue_request (py_strip token) owner repo title body)))"

definition issue_result :: "env \<Rightarrow> http_request \<Rightarrow> exn + json" where
  "issue_result e rq =
     (case requests_post e rq of
        Inl ex \<Rightarrow> Inl ex
      | Inr r \<Rightarrow>
          if status_code r \<ge> 400
          then Inl (Exception ''RuntimeError''
                 (''GitHub API error '' @ str_nat (status_code r) @ '': '' @ take 300 (resp_text r)))
          else json_loads e (resp_text r))"

definition created_id :: "env \<Rightarrow> http_request \<Rightarrow> exn + json" where
  "created_id e rq =
     (case issue_result e rq of
        Inl ex \<Rightarrow> Inl ex
      | Inr issue \<Rightarrow> json_getitem issue ''html_url'')"

text \<open>The request the publish loop sends for the sample issue record titled \<open>n\<close>.\<close>

definition sample_body :: string where
  "sample_body =
     ''**Severity:** low'' @ [CHR 0x0A, CHR 0x0A]
     @ ''**Evidence:**'' @ [CHR 0x0A] @ ''file tree'' @ [CHR 0x0A, CHR 0x0A]
     @ ''**Suggested fix:**'' @ [CHR 0x0A] @ ''Fix it'' @ [CHR 0x0A, CHR 0x0A]
     @ ''_Created by RepoDoctor_''"

definition request_for :: "string \<Rightarrow> http_request" where
  "request_for n = issue_request ''ghp_token'' ''o'' ''r'' (JStr n) sample_body"

subsection \<open>The review contract\<close>

text \<open>
  The contract the specification states for a review result: exactly five issue records,
  each with non-empty title, severity, evidence and fix, the severity one of the four
  levels.
\<close>

definition top_5 :: "json \<Rightarrow> json list option" where
  "top_5 j =
     (case j of
        JObj d \<Rightarrow> (case map_of d ''top_5'' of Some (JArr xs) \<Rightarrow> Some xs | _ \<Rightarrow> None)
      | _ \<Rightarrow> None)"

definition nonempty_field :: "(string \<times> json) list \<Rightarrow> string \<Rightarrow> bool" where
  "nonempty_field d k = (case map_of d k of Some (JStr s) \<Rightarrow> s \<noteq> [] | _ \<Rightarrow> False)"

definition severity_ok :: "(string \<times> json) list \<Rightarrow> bool" where
  "severity_ok d = (case map_of d ''severity'' of Some (JStr s) \<Rightarrow> s \<in> set SEVERITIES | _ \<Rightarrow> False)"

definition issue_contract :: "json \<Rightarrow> bool" where
  "issue_contract j =
     (case j of
        JObj d \<Rightarrow> list_all (nonempty_field d) ISSUE_FIELDS \<and> severity_ok d
      | _ \<Rightarrow> False)"

definition review_contract :: "json \<Rightarrow> bool" where
  "review_contract j =
     (case top_5 j of Some xs \<Rightarrow> length xs = 5 \<and> list_all issue_contract xs | None \<Rightarrow> False)"

text \<open>
  What \<open>REVIEW_SCHEMA\<close> guarantees of a value: exactly five issue records, each with
  exactly the four fields, all strings, the severity one of the four levels. The strings
  may be empty.
\<close>

definition string_field :: "(string \<times> json) list \<Rightarrow> string \<Rightarrow> bool" where
  "string_field d k = (case map_of d k of Some (JStr s) \<Rightarrow> True | _ \<Rightarrow> False)"

definition issue_shape :: "json \<Rightarrow> bool" where
  "issue_shape j =
     (case j of
        JObj d \<Rightarrow> set (map fst d) = set ISSUE_FIELDS
                  \<and> list_all (string_field d) ISSUE_FIELDS \<and> severity_ok d
      | _ \<Rightarrow> False)"

definition review_shape :: "json \<Rightarrow> bool" where
  "review_shape j =
     (case top_5 j of Some xs \<Rightarrow> length xs = 5 \<and> list_all issue_shape xs | None \<Rightarrow> False)"

text \<open>
  A provider that answers with the review whose first issue has empty texts, and one
  that answers with a JSON value off the schema.
\<close>

definition env_terse :: env where
  "env_terse = env_ok\<lparr>responses_create := (\<lambda>rq. Inr (json_text review_empty_fields))\<rparr>"

definition env_off_schema :: env where
  "env_off_schema = env_ok\<lparr>responses_create := (\<lambda>rq. Inr (json_text moved_body))\<rparr>"

text \<open>The schema of one item of \<open>top_5\<close>, as \<open>REVIEW_SCHEMA\<close> has it.\<close>

definition issue_schema :: schema where
  "issue_schema =
     SObject
       [(''title'', SString),
        (''severity'', SEnum SEVERITIES),
        (''evidence'', SString),
        (''fix'', SString)]
       ISSUE_FIELDS False"

text \<open>
  Environments in which the clone fails, the credentials are missing, the model call
  raises an exception with an empty message, and the model call is interrupted; and a
  state in which the first candidate scratch name is taken.
\<close>

definition env_clone_fails :: env where
  "env_clone_fails =
     env_ok\<lparr>clone_from := (\<lambda>url dest.
        Inl (Exception ''GitCommandError'' ''Cmd(git) failed due to: exit code(128)''))\<rparr>"

definition env_no_key :: env where
  "env_no_key = env_ok\<lparr>openai_api_key := None\<rparr>"


definition env_interrupted :: env where
  "env_interrupted =
     env_ok\<lparr>responses_create := (\<lambda>rq. Inl (BaseException ''KeyboardInterrupt'' ''''))\<rparr>"

definition sys1 :: sys where
  "sys1 = \<lparr>existing = [''/tmp/repodoctor_x1'', ''/tmp/repodoctor_x1/other__repo''], trace = []\<rparr>"

text \<open>
  A checkout of \<open>n\<close> directories nested in one another, and environments whose checkout is
  996 deep: \<open>os.walk\<close> still lists it, and \<open>shutil.rmtree\<close> exhausts the recursion limit
  on it. In the second the credentials are missing as well.
\<close>

fun deep_tree :: "nat \<Rightarrow> node" where
  "deep_tree 0 = Dir []"
| "deep_tree (Suc n) = Dir [(''d'', deep_tree n)]"

definition recursion_error :: exn where
  "recursion_error = Exception ''RecursionError'' ''maximum recursion depth exceeded''"

definition env_deep :: env where
  "env_deep =
     env_ok\<lparr>clone_from := (\<lambda>url dest. Inr (deep_tree 996)),
            rmtree_outcome := (\<lambda>p. Raised recursion_error)\<rparr>"

definition env_deep_no_key :: env where
  "env_deep_no_key = env_deep\<lparr>openai_api_key := None\<rparr>"

text \<open>An environment in which the removal of the scratch tree fails and the failure is ignored.\<close>

definition env_stuck :: env where
  "env_stuck = env_ok\<lparr>rmtree_outcome := (\<lambda>p. Ignored)\<rparr>"





section \<open>The evidence extractor\<close>

lemma read_text_file_length: "length (read_text_file p n) \<le> n"
  by (cases "(p, n)" rule: read_text_file.cases) simp_all

lemma set_dict_set: "set (dict_set d k v) \<subseteq> insert (k, v) (set d)"
  by (induction d k v rule: dict_set.induct) auto

lemma keys_dict_set: "set (map fst (dict_set d k v)) = insert k (set (map fst d))"
  by (induction d k v rule: dict_set.induct) auto

lemma read_key_files_inv:
  assumes "list_all (value_bounded 8000) acc" "set (map fst acc) \<subseteq> S"
  shows "list_all (value_bounded 8000) (read_key_files tree names acc)
         \<and> set (map fst (read_key_files tree names acc)) \<subseteq> S \<union> set names"
  using assms
proof (induction names arbitrary: acc S)
  case Nil
  then show ?case by simp
next
  case (Cons name names)
  show ?case
  proof (cases "lookup_entry tree name")
    case None
    with Cons.IH [of acc "S"] Cons.prems show ?thesis by auto
  next
    case (Some p)
    let ?v = "if is_dir p then DIRECTORY_PRESENT else read_text_file (Some p) 8000"
    have b: "value_bounded 8000 (name, ?v)"
      by (simp add: value_bounded_def read_text_file_length)
    have 1: "list_all (value_bounded 8000) (dict_set acc name ?v)"
      using Cons.prems(1) b set_dict_set [of acc name ?v]
      unfolding list_all_iff by blast
    have 2: "set (map fst (dict_set acc name ?v)) \<subseteq> insert name S"
      using Cons.prems(2) unfolding keys_dict_set by auto
    from Cons.IH [OF 1 2] Some show ?thesis by auto
  qed
qed

lemma tree0_summary:
  "walk_repo_summary ''/tmp/repodoctor_x1/o__r'' tree0 200 =
     ([''./README.md'', ''./LICENSE'', ''src/app.py''],
      [(''README.md'', ''# demo''), (''LICENSE'', ''''), (''.github'', ''DIRECTORY_PRESENT'')])"
  by code_simp

text \<open>
  C6. Whatever the directory, the extractor's file listing has at most \<open>max_files\<close> entries
  (200 by default), every key-file value is the directory sentinel or a string of at most
  8000 characters, and the keys of the key-file mapping belong to the allow-list
  \<open>important\<close>.
\<close>

theorem walk_repo_summary_bounded:
  "length (fst (walk_repo_summary root tree max_files)) \<le> max_files
   \<and> list_all (value_bounded 8000) (snd (walk_repo_summary root tree max_files))
   \<and> set (map fst (snd (walk_repo_summary root tree max_files))) \<subseteq> set important"
  using read_key_files_inv [of "[]" "{}" tree important]
  by (simp add: walk_repo_summary_def Let_def)

theorem walk_repo_summary_bounded_witness:
  "walk_repo_summary ''/tmp/repodoctor_x1/o__r'' tree0 200 =
     ([''./README.md'', ''./LICENSE'', ''src/app.py''],
      [(''README.md'', ''# demo''), (''LICENSE'', ''''), (''.github'', ''DIRECTORY_PRESENT'')])
   \<and> length [''./README.md'', ''./LICENSE'', ''src/app.py''] \<le> (200::nat)
   \<and> list_all (value_bounded 8000)
         [(''README.md'', ''# demo''), (''LICENSE'', ''''), (''.github'', ''DIRECTORY_PRESENT'')]
   \<and> set [''README.md'', ''LICENSE'', ''.github''] \<subseteq> set important"
  using walk_repo_summary_bounded [of "''/tmp/repodoctor_x1/o__r''" tree0 200]
  unfolding tree0_summary by simp

section \<open>The heuristic scanner\<close>

lemma basic_heuristics_eq:
  "basic_heuristics files kc =
     (if length files > 180 then [finding_large] else [],
      (if dict_has kc ''README.md'' then [] else [quickwin_readme])
        @ (if dict_has kc ''.env.example'' then [] else [quickwin_env])
        @ (if dict_has kc ''Dockerfile'' then [] else [quickwin_docker]),
      (if dict_has kc ''LICENSE'' then [] else [risk_license])
        @ (if list_ex (\<lambda>f. contains ''test'' (py_lower f)) files then [] else [risk_tests]))"
  by (simp add: basic_heuristics_def Let_def)

text \<open>
  C7. The scanner emits its entries in the order of its rules: README, env-example,
  Dockerfile among the quick wins; license, tests among the risks. In particular, with no
  \<open>README.md\<close> and no \<open>LICENSE\<close> key file and five listed files none of which contains
  \<open>test\<close>, the quick wins start with the README suggestion and the risks are the no-license
  risk followed by the no-tests risk.
\<close>

theorem basic_heuristics_rule_order:
  "basic_heuristics files kc =
     (if length files > 180 then [finding_large] else [],
      (if dict_has kc ''README.md'' then [] else [quickwin_readme])
        @ (if dict_has kc ''.env.example'' then [] else [quickwin_env])
        @ (if dict_has kc ''Dockerfile'' then [] else [quickwin_docker]),
      (if dict_has kc ''LICENSE'' then [] else [risk_license])
        @ (if mentions_test files then [] else [risk_tests]))
   \<and> (\<not> dict_has kc ''README.md'' \<and> \<not> dict_has kc ''LICENSE'' \<and> length files = 5
        \<and> \<not> mentions_test files
      \<longrightarrow> fst (basic_heuristics files kc) = []
          \<and> hd (fst (snd (basic_heuristics files kc))) = quickwin_readme
          \<and> quickwin_readme \<in> set (fst (snd (basic_heuristics files kc)))
          \<and> snd (snd (basic_heuristics files kc)) = [risk_license, risk_tests])"
proof (intro conjI impI)
  show "basic_heuristics files kc =
     (if length files > 180 then [finding_large] else [],
      (if dict_has kc ''README.md'' then [] else [quickwin_readme])
        @ (if dict_has kc ''.env.example'' then [] else [quickwin_env])
        @ (if dict_has kc ''Dockerfile'' then [] else [quickwin_docker]),
      (if dict_has kc ''LICENSE'' then [] else [risk_license])
        @ (if mentions_test files then [] else [risk_tests]))"
    unfolding mentions_test_def by (rule basic_heuristics_eq)
next
  assume h: "\<not> dict_has kc ''README.md'' \<and> \<not> dict_has kc ''LICENSE'' \<and> length files = 5
        \<and> \<not> mentions_test files"
  then have few: "\<not> length files > 180" and no_test: "\<not> list_ex (\<lambda>f. contains ''test'' (py_lower f)) files"
    by (simp_all add: mentions_test_def)
  from few show "fst (basic_heuristics files kc) = []"
    by (simp add: basic_heuristics_eq)
  from h show "hd (fst (snd (basic_heuristics files kc))) = quickwin_readme"
    by (simp add: basic_heuristics_eq)
  from h show "quickwin_readme \<in> set (fst (snd (basic_heuristics files kc)))"
    by (simp add: basic_heuristics_eq)
  from h no_test show "snd (snd (basic_heuristics files kc)) = [risk_license, risk_tests]"
    by (simp add: basic_heuristics_eq)
qed

theorem basic_heuristics_rule_order_witness:
  "\<not> dict_has [(''Dockerfile'', ''FROM python:3.11'')] ''README.md''
   \<and> \<not> dict_has [(''Dockerfile'', ''FROM python:3.11'')] ''LICENSE''
   \<and> length files5 = 5 \<and> \<not> mentions_test files5
   \<and> basic_heuristics files5 [(''Dockerfile'', ''FROM python:3.11'')] =
        ([], [quickwin_readme, quickwin_env], [risk_license, risk_tests])"
proof -
  have h: "\<not> dict_has [(''Dockerfile'', ''FROM python:3.11'')] ''README.md''
      \<and> \<not> dict_has [(''Dockerfile'', ''FROM python:3.11'')] ''LICENSE''
      \<and> length files5 = 5 \<and> \<not> mentions_test files5"
    by code_simp
  have d: "dict_has [(''Dockerfile'', ''FROM python:3.11'')] ''Dockerfile''"
     "\<not> dict_has [(''Dockerfile'', ''FROM python:3.11'')] ''.env.example''"
    by code_simp+
  show ?thesis
    using h d basic_heuristics_rule_order [of files5 "[(''Dockerfile'', ''FROM python:3.11'')]"]
    by simp
qed









section \<open>Repository URLs\<close>

lemma url_plain_append [simp]: "url_plain (a @ b) = (url_plain a \<and> url_plain b)"
  by (auto simp: url_plain_def)

lemma url_plain_Nil [simp]: "url_plain []"
  by (simp add: url_plain_def)

lemma url_plain_Cons [simp]:
  "url_plain (c # s) = (c \<notin> set ''?#;'' \<and> \<not> is_unsafe_byte c \<and> url_plain s)"
  by (auto simp: url_plain_def)

lemma not_unsafe_literals [simp]: "\<not> is_unsafe_byte (CHR ''/'')" "\<not> is_unsafe_byte (CHR ''.'')"
  "\<not> is_unsafe_byte (CHR ''g'')" "\<not> is_unsafe_byte (CHR ''i'')" "\<not> is_unsafe_byte (CHR ''t'')"
  by (simp_all add: is_unsafe_byte_def)

lemma filter_unsafe_plain: "url_plain p \<Longrightarrow> filter (\<lambda>c. \<not> is_unsafe_byte c) p = p"
  by (simp add: url_plain_def)

lemma urlsplit_github_path:
  assumes "url_plain p"
  shows "urlsplit f (''https://github.com/'' @ p) =
     Inr \<lparr>scheme = ''https'', netloc = ''github.com'', path = CHR ''/'' # p,
          params = '''', query = '''', fragment = ''''\<rparr>"
proof -
  define u where "u = ''https://github.com/'' @ p"
  define v where "v = ''//github.com/'' @ p"
  define w where "w = CHR ''/'' # p"
  have np: "CHR ''#'' \<notin> set w" "CHR ''?'' \<notin> set w"
    using assms by (auto simp: url_plain_def w_def)
  have f: "filter (\<lambda>c. \<not> is_unsafe_byte c) p = p"
    using assms by (rule filter_unsafe_plain)
  have l: "lstrip_chars is_c0_or_space u = u"
    by (simp add: lstrip_chars_def is_c0_or_space_def u_def)
  have u1: "filter (\<lambda>c. \<not> is_unsafe_byte c) u = u"
    using f by (simp add: is_unsafe_byte_def u_def)
  have s: "split_scheme u = (''https'', v)"
    by (simp add: split_scheme_def is_ascii_alpha_def scheme_chars_def py_lower_def
        lower_char_def Let_def u_def v_def)
  have t: "take 2 v = ''//''"
    by (simp add: v_def)
  have n: "splitnetloc v = (''github.com'', w)"
    by (simp add: splitnetloc_def is_netloc_delim_def v_def w_def)
  have "urlsplit f u =
     Inr \<lparr>scheme = ''https'', netloc = ''github.com'', path = w,
          params = '''', query = '''', fragment = ''''\<rparr>"
    using np by (simp add: urlsplit_def l u1 s n t)
  then show ?thesis
    by (simp add: u_def w_def)
qed

lemma urlparse_github_path:
  assumes "url_plain p"
  shows "urlparse f (''https://github.com/'' @ p) =
     Inr \<lparr>scheme = ''https'', netloc = ''github.com'', path = CHR ''/'' # p,
          params = '''', query = '''', fragment = ''''\<rparr>"
proof -
  have "CHR '';'' \<notin> set (CHR ''/'' # p)"
    using assms by (auto simp: url_plain_def)
  then show ?thesis
    unfolding urlparse_def urlsplit_github_path [OF assms] by simp
qed

lemma py_split_no_sep: "c \<notin> set a \<Longrightarrow> py_split c a = [a]"
  by (induction a) auto

lemma py_split_append: "c \<notin> set a \<Longrightarrow> py_split c (a @ c # b) = a # py_split c b"
  by (induction a) auto

lemma py_strip_id:
  assumes "s \<noteq> []" "\<not> is_space (hd s)" "\<not> is_space (last s)"
  shows "py_strip s = s"
proof -
  have a: "dropWhile is_space s = s"
    using assms by (cases s) auto
  have "rev s \<noteq> []" "\<not> is_space (hd (rev s))"
    using assms by (simp_all add: hd_rev)
  then have b: "dropWhile is_space (rev s) = rev s"
    by (cases "rev s") auto
  show ?thesis
    by (simp add: py_strip_def strip_chars_def a b)
qed

lemma path_parts_two:
  assumes "segment a" "segment b"
  shows "path_parts (CHR ''/'' # a @ CHR ''/'' # b) = [a, b]"
    and "path_parts (CHR ''/'' # a @ CHR ''/'' # b @ ''/'') = [a, b]"
  using assms
  by (simp_all add: path_parts_def segment_def py_split_append py_split_no_sep)

lemma github_lower: "py_lower ''github.com'' = ''github.com''"
  by (simp add: py_lower_def lower_char_def)

lemma parse_repo_plain:
  assumes "segment a" "segment b" "url_plain t" "path_parts (CHR ''/'' # a @ CHR ''/'' # b @ t) = [a, b']"
    and "\<not> is_space (last (b @ t))"
  shows "parse_repo f (''https://github.com/'' @ a @ ''/'' @ b @ t) = Inr (a, sub_git_suffix b')"
proof -
  let ?p = "a @ ''/'' @ b @ t"
  have pl: "url_plain ?p"
    using assms(1-3) by (simp add: segment_def)
  have ne: "b @ t \<noteq> []"
    using assms(2) by (simp add: segment_def)
  have "last (''https://github.com/'' @ ?p) = last (b @ t)"
    using assms(2) by (simp add: segment_def)
  then have st: "py_strip (''https://github.com/'' @ ?p) = ''https://github.com/'' @ ?p"
    using assms(5) by (intro py_strip_id) (simp_all add: is_space_def)
  show ?thesis
    unfolding parse_repo_def st urlparse_github_path [OF pl]
    using assms(4) by (simp add: github_lower)
qed

lemma sub_git_suffix_none:
  assumes "\<not> endswith ''.git'' s" "CHR 0x0A \<notin> set s"
  shows "sub_git_suffix s = s"
proof -
  have "\<not> endswith (''.git'' @ [CHR 0x0A]) s"
    using assms(2) by (cases s rule: rev_cases) (auto simp: endswith_def)
  with assms(1) show ?thesis
    by (simp add: sub_git_suffix_def)
qed

lemma sub_git_suffix_git: "sub_git_suffix (s @ ''.git'') = s"
  by (simp add: sub_git_suffix_def endswith_def)

lemma parse_repo_three_forms:
  assumes "segment owner" "segment name" "\<not> is_space (last name)" "\<not> endswith ''.git'' name"
  shows "parse_repo f (''https://github.com/'' @ owner @ ''/'' @ name) = Inr (owner, name)"
    and "parse_repo f (''https://github.com/'' @ owner @ ''/'' @ name @ ''/'') = Inr (owner, name)"
    and "parse_repo f (''https://github.com/'' @ owner @ ''/'' @ name @ ''.git'') = Inr (owner, name)"
proof -
  have nl: "CHR 0x0A \<notin> set name"
    using assms(2) by (auto simp: segment_def url_plain_def is_unsafe_byte_def)
  have sg: "sub_git_suffix name = name"
    using assms(4) nl by (rule sub_git_suffix_none)
  have ne: "name \<noteq> []"
    using assms(2) by (simp add: segment_def)
  show "parse_repo f (''https://github.com/'' @ owner @ ''/'' @ name) = Inr (owner, name)"
    using parse_repo_plain [OF assms(1,2), of "[]" name f] path_parts_two(1) [OF assms(1,2)] assms(3) sg
    by (simp add: url_plain_def)
  show "parse_repo f (''https://github.com/'' @ owner @ ''/'' @ name @ ''/'') = Inr (owner, name)"
    using parse_repo_plain [OF assms(1,2), of "''/''" name f] path_parts_two(2) [OF assms(1,2)] sg
    by (simp add: is_space_def)
  have sgit: "segment (name @ ''.git'')"
    using assms(2) by (simp add: segment_def)
  show "parse_repo f (''https://github.com/'' @ owner @ ''/'' @ name @ ''.git'') = Inr (owner, name)"
    using parse_repo_plain [OF assms(1) sgit, of "[]" "name @ ''.git''" f]
      path_parts_two(1) [OF assms(1) sgit] sub_git_suffix_git [of name]
    by (simp add: url_plain_def is_space_def)
qed


text \<open>
  C5 (as amended). For a plain owner and repository name (the name not ending in \<open>.git\<close> or
  in white space), \<open>parse_repo\<close> maps \<open>https://github.com/owner/name\<close>, the same with a
  trailing slash and the same with \<open>.git\<close> appended to the one pair \<open>(owner, name)\<close>. On
  any URL that \<open>urlparse\<close> splits, what is compared with \<open>github.com\<close> is the network
  location, lower-cased: the host together with any user information and port. When it
  differs, \<open>parse_repo\<close> raises, so it raises on every other host, and also on
  \<open>token@github.com\<close> and on \<open>github.com:443\<close>. When it is equal, \<open>parse_repo\<close> raises on a
  path of fewer than two non-empty segments and accepts every path of two or more: the
  first is the owner, the second without a trailing \<open>.git\<close> the name, and further segments
  are ignored. An exception of \<open>urlparse\<close> propagates.
\<close>

theorem parse_repo_accepts:
  "(segment owner \<and> segment name \<and> \<not> is_space (last name) \<and> \<not> endswith ''.git'' name \<longrightarrow>
      parse_repo f (''https://github.com/'' @ owner @ ''/'' @ name) = Inr (owner, name)
      \<and> parse_repo f (''https://github.com/'' @ owner @ ''/'' @ name @ ''/'') = Inr (owner, name)
      \<and> parse_repo f (''https://github.com/'' @ owner @ ''/'' @ name @ ''.git'') = Inr (owner, name))
   \<and> (\<forall>u. urlparse f (py_strip url) = Inr u \<longrightarrow>
        (py_lower (netloc u) \<noteq> ''github.com'' \<longrightarrow>
           parse_repo f url = Inl (Exception ''ValueError'' ''Repo URL must be a github.com URL''))
        \<and> (py_lower (netloc u) = ''github.com'' \<and> length (path_parts (path u)) < 2 \<longrightarrow>
             parse_repo f url = Inl (Exception ''ValueError''
                ''Repo URL must look like https://github.com/owner/repo''))
        \<and> (py_lower (netloc u) = ''github.com'' \<and> 2 \<le> length (path_parts (path u)) \<longrightarrow>
             parse_repo f url =
               Inr (path_parts (path u) ! 0, sub_git_suffix (path_parts (path u) ! 1))))
   \<and> (\<forall>ex. urlparse f (py_strip url) = Inl ex \<longrightarrow> parse_repo f url = Inl ex)"
proof (intro conjI allI impI)
  fix u
  assume u: "urlparse f (py_strip url) = Inr u"
  show "parse_repo f url = Inl (Exception ''ValueError'' ''Repo URL must be a github.com URL'')"
    if "py_lower (netloc u) \<noteq> ''github.com''"
    using that u by (simp add: parse_repo_def)
  show "parse_repo f url = Inl (Exception ''ValueError''
      ''Repo URL must look like https://github.com/owner/repo'')"
    if "py_lower (netloc u) = ''github.com'' \<and> length (path_parts (path u)) < 2"
    using that u by (cases "path_parts (path u)") (auto simp: parse_repo_def split: list.splits)
  show "parse_repo f url = Inr (path_parts (path u) ! 0, sub_git_suffix (path_parts (path u) ! 1))"
    if "py_lower (netloc u) = ''github.com'' \<and> 2 \<le> length (path_parts (path u))"
    using that u by (cases "path_parts (path u)") (auto simp: parse_repo_def split: list.splits)
next
  fix ex
  assume "urlparse f (py_strip url) = Inl ex"
  then show "parse_repo f url = Inl ex"
    by (simp add: parse_repo_def)
next
  assume h: "segment owner \<and> segment name \<and> \<not> is_space (last name) \<and> \<not> endswith ''.git'' name"
  then show "parse_repo f (''https://github.com/'' @ owner @ ''/'' @ name) = Inr (owner, name)"
    using parse_repo_three_forms(1) by simp
  from h show "parse_repo f (''https://github.com/'' @ owner @ ''/'' @ name @ ''/'') = Inr (owner, name)"
    using parse_repo_three_forms(2) by simp
  from h show "parse_repo f (''https://github.com/'' @ owner @ ''/'' @ name @ ''.git'') = Inr (owner, name)"
    using parse_repo_three_forms(3) by simp
qed

theorem parse_repo_accepts_witness:
  "parse_repo no_bracketed_host ''https://github.com/owner/repo'' = Inr (''owner'', ''repo'')
   \<and> parse_repo no_bracketed_host ''https://github.com/owner/repo/'' = Inr (''owner'', ''repo'')
   \<and> parse_repo no_bracketed_host ''https://github.com/owner/repo.git'' = Inr (''owner'', ''repo'')
   \<and> parse_repo no_bracketed_host ''https://gitlab.com/owner/repo'' =
        Inl (Exception ''ValueError'' ''Repo URL must be a github.com URL'')
   \<and> parse_repo no_bracketed_host ''https://github.com/owner'' =
        Inl (Exception ''ValueError'' ''Repo URL must look like https://github.com/owner/repo'')
   \<and> parse_repo no_bracketed_host ''https://GitHub.com/owner/repo.git/issues/42'' =
        Inr (''owner'', ''repo'')
   \<and> parse_repo no_bracketed_host ''https://[github.com/owner/repo'' =
        Inl (Exception ''ValueError'' ''Invalid IPv6 URL'')
   \<and> parse_repo no_bracketed_host ''https://token@github.com/owner/repo.git'' =
        Inl (Exception ''ValueError'' ''Repo URL must be a github.com URL'')
   \<and> parse_repo no_bracketed_host ''https://github.com:443/owner/repo'' =
        Inl (Exception ''ValueError'' ''Repo URL must be a github.com URL'')"
proof -
  have seg: "segment ''owner'' \<and> segment ''repo'' \<and> \<not> is_space (last ''repo'')
      \<and> \<not> endswith ''.git'' ''repo''"
    by (simp add: segment_def url_plain_def is_unsafe_byte_def is_space_def endswith_def)
  have three: "parse_repo no_bracketed_host ''https://github.com/owner/repo'' = Inr (''owner'', ''repo'')
     \<and> parse_repo no_bracketed_host ''https://github.com/owner/repo/'' = Inr (''owner'', ''repo'')
     \<and> parse_repo no_bracketed_host ''https://github.com/owner/repo.git'' = Inr (''owner'', ''repo'')"
    using parse_repo_accepts [of "''owner''" "''repo''" no_bracketed_host "[]", THEN conjunct1, THEN mp, OF seg]
    by simp
  have u1: "urlparse no_bracketed_host (py_strip ''https://gitlab.com/owner/repo'') =
      Inr \<lparr>scheme = ''https'', netloc = ''gitlab.com'', path = ''/owner/repo'',
           params = '''', query = '''', fragment = ''''\<rparr>"
    by code_simp
  have u2: "urlparse no_bracketed_host (py_strip ''https://github.com/owner'') =
      Inr \<lparr>scheme = ''https'', netloc = ''github.com'', path = ''/owner'',
           params = '''', query = '''', fragment = ''''\<rparr>"
    by code_simp
  have u3: "urlparse no_bracketed_host (py_strip ''https://GitHub.com/owner/repo.git/issues/42'') =
      Inr \<lparr>scheme = ''https'', netloc = ''GitHub.com'', path = ''/owner/repo.git/issues/42'',
           params = '''', query = '''', fragment = ''''\<rparr>"
    by code_simp
  have u4: "urlparse no_bracketed_host (py_strip ''https://[github.com/owner/repo'') =
      Inl (Exception ''ValueError'' ''Invalid IPv6 URL'')"
    by code_simp
  have u5: "urlparse no_bracketed_host (py_strip ''https://token@github.com/owner/repo.git'') =
      Inr \<lparr>scheme = ''https'', netloc = ''token@github.com'', path = ''/owner/repo.git'',
           params = '''', query = '''', fragment = ''''\<rparr>"
    by code_simp
  have u6: "urlparse no_bracketed_host (py_strip ''https://github.com:443/owner/repo'') =
      Inr \<lparr>scheme = ''https'', netloc = ''github.com:443'', path = ''/owner/repo'',
           params = '''', query = '''', fragment = ''''\<rparr>"
    by code_simp
  have l1: "py_lower ''gitlab.com'' \<noteq> ''github.com''" "py_lower ''github.com'' = ''github.com''"
    "py_lower ''GitHub.com'' = ''github.com''"
    by code_simp+
  have l2: "py_lower ''token@github.com'' \<noteq> ''github.com''"
    "py_lower ''github.com:443'' \<noteq> ''github.com''"
    by code_simp+
  have p2: "path_parts ''/owner'' = [''owner'']"
    "path_parts ''/owner/repo.git/issues/42'' = [''owner'', ''repo.git'', ''issues'', ''42'']"
    by (simp_all add: path_parts_def)
  have g: "sub_git_suffix ''repo.git'' = ''repo''"
    by (simp add: sub_git_suffix_def endswith_def)
  note T = parse_repo_accepts [of "''owner''" "''repo''" no_bracketed_host, THEN conjunct2]
  have a: "parse_repo no_bracketed_host ''https://gitlab.com/owner/repo'' =
        Inl (Exception ''ValueError'' ''Repo URL must be a github.com URL'')"
    using T [THEN conjunct1, THEN spec, THEN mp, OF u1] l1 by simp
  have b: "parse_repo no_bracketed_host ''https://github.com/owner'' =
        Inl (Exception ''ValueError'' ''Repo URL must look like https://github.com/owner/repo'')"
    using T [THEN conjunct1, THEN spec, THEN mp, OF u2] l1 p2 by simp
  have c: "parse_repo no_bracketed_host ''https://GitHub.com/owner/repo.git/issues/42'' =
        Inr (''owner'', ''repo'')"
    using T [THEN conjunct1, THEN spec, THEN mp, OF u3] l1 p2 g by simp
  have d: "parse_repo no_bracketed_host ''https://[github.com/owner/repo'' =
        Inl (Exception ''ValueError'' ''Invalid IPv6 URL'')"
    using T [THEN conjunct2, THEN spec, THEN mp, OF u4] by simp
  have e: "parse_repo no_bracketed_host ''https://token@github.com/owner/repo.git'' =
        Inl (Exception ''ValueError'' ''Repo URL must be a github.com URL'')"
    using T [THEN conjunct1, THEN spec, THEN mp, OF u5] l2 by simp
  have f: "parse_repo no_bracketed_host ''https://github.com:443/owner/repo'' =
        Inl (Exception ''ValueError'' ''Repo URL must be a github.com URL'')"
    using T [THEN conjunct1, THEN spec, THEN mp, OF u6] l2 by simp
  show ?thesis
    using three a b c d e f by simp
qed

text \<open>
  C5 as stated fails: a path of four segments is accepted, so acceptance does not require
  a path of exactly owner and name.
\<close>

theorem parse_repo_extra_segments_counterexample:
  "urlparse no_bracketed_host (py_strip ''https://github.com/owner/repo/issues/42'') =
      Inr \<lparr>scheme = ''https'', netloc = ''github.com'', path = ''/owner/repo/issues/42'',
           params = '''', query = '''', fragment = ''''\<rparr>
   \<and> path_parts ''/owner/repo/issues/42'' = [''owner'', ''repo'', ''issues'', ''42'']
   \<and> parse_repo no_bracketed_host ''https://github.com/owner/repo/issues/42'' =
        Inr (''owner'', ''repo'')"
  by code_simp

section \<open>Publishing issues\<close>

lemma create_issue_eq:
  "create_issue e token owner repo title body s =
     (issue_result e (issue_request token owner repo title body),
      log (HttpPost (issue_request token owner repo title body)) s)"
  by (simp add: create_issue_def issue_result_def Let_def split: sum.splits)

text \<open>
  C9 (as amended). When the tracker answers with a status of 400 or more, \<open>create_issue\<close>
  fails with a \<open>RuntimeError\<close> whose message carries the status and the first 300
  characters of the response body. On every status below 400, 2xx or not, it returns what
  \<open>json.loads\<close> makes of the response body: the created issue's record, from which the
  publish entry point reads the identifier \<open>html_url\<close>.
\<close>

theorem create_issue_status:
  "requests_post e (issue_request token owner repo title body) = Inr r \<longrightarrow>
     (400 \<le> status_code r \<longrightarrow>
        fst (create_issue e token owner repo title body s) =
          Inl (Exception ''RuntimeError''
                 (''GitHub API error '' @ str_nat (status_code r) @ '': '' @ take 300 (resp_text r))))
     \<and> (status_code r < 400 \<longrightarrow>
          fst (create_issue e token owner repo title body s) = json_loads e (resp_text r))"
proof (intro impI conjI)
  assume post: "requests_post e (issue_request token owner repo title body) = Inr r"
  have run: "fst (create_issue e token owner repo title body s) =
      issue_result e (issue_request token owner repo title body)"
    by (simp add: create_issue_eq)
  show "fst (create_issue e token owner repo title body s) =
          Inl (Exception ''RuntimeError''
                 (''GitHub API error '' @ str_nat (status_code r) @ '': '' @ take 300 (resp_text r)))"
    if "400 \<le> status_code r"
    using that post by (simp add: run issue_result_def)
  show "fst (create_issue e token owner repo title body s) = json_loads e (resp_text r)"
    if "status_code r < 400"
    using that post by (simp add: run issue_result_def)
qed

lemma sample_404:
  "requests_post env_not_found (issue_request ''tok'' ''o'' ''r'' (JStr ''1'') ''B'') =
     Inr \<lparr>status_code = 404, resp_text = ''Not Found''\<rparr>"
  by (simp add: env_not_found_def)

lemma sample_201:
  "requests_post env_ok (issue_request ''tok'' ''o'' ''r'' (JStr ''1'') ''B'') =
     Inr \<lparr>status_code = 201, resp_text = json_text (created_issue ''1'')\<rparr>"
  by (simp add: env_ok_def sample_post_def issue_request_def)

lemma sample_loads_created:
  "json_loads env_ok (json_text (created_issue ''1'')) = Inr (created_issue ''1'')"
  by code_simp

theorem create_issue_status_witness:
  "fst (create_issue env_not_found ''tok'' ''o'' ''r'' (JStr ''1'') ''B'' sys0) =
     Inl (Exception ''RuntimeError'' ''GitHub API error 404: Not Found'')
   \<and> fst (create_issue env_ok ''tok'' ''o'' ''r'' (JStr ''1'') ''B'' sys0) =
        Inr (JObj [(''html_url'', JStr ''https://github.com/o/r/issues/1''), (''title'', JStr ''1'')])"
proof -
  have n: "str_nat 404 = ''404''"
    by code_simp
  have a: "fst (create_issue env_not_found ''tok'' ''o'' ''r'' (JStr ''1'') ''B'' sys0) =
     Inl (Exception ''RuntimeError'' ''GitHub API error 404: Not Found'')"
    using create_issue_status [of env_not_found "''tok''" "''o''" "''r''" "JStr ''1''" "''B''" _ sys0,
        THEN mp, OF sample_404]
    by (simp add: n)
  have b: "fst (create_issue env_ok ''tok'' ''o'' ''r'' (JStr ''1'') ''B'' sys0) =
        Inr (JObj [(''html_url'', JStr ''https://github.com/o/r/issues/1''), (''title'', JStr ''1'')])"
    using create_issue_status [of env_ok "''tok''" "''o''" "''r''" "JStr ''1''" "''B''" _ sys0,
        THEN mp, OF sample_201]
    by (simp add: sample_loads_created) (simp add: created_issue_def issue_url_def)
  show ?thesis
    using a b by simp
qed

text \<open>
  C9 as stated fails: on the non-2xx status 301 the call does not fail; it returns the
  parsed body of the redirect.
\<close>

theorem create_issue_redirect_counterexample:
  "requests_post env_moved (issue_request ''tok'' ''o'' ''r'' (JStr ''1'') ''B'') =
     Inr \<lparr>status_code = 301, resp_text = json_text moved_body\<rparr>
   \<and> fst (create_issue env_moved ''tok'' ''o'' ''r'' (JStr ''1'') ''B'' sys0) =
       Inr (JObj [(''message'', JStr ''Moved Permanently'')])"
  by code_simp

lemma trace_log [simp]: "trace (log ev s) = trace s @ [ev]"
  by (simp add: log_def)

lemma create_loop_sends:
  "create_loop e tok ow rp its created s = (res, s') \<Longrightarrow>
     \<exists>sent. trace s' = trace s @ map HttpPost sent \<and> length sent \<le> length its
        \<and> map Inr sent = map (issue_post e tok ow rp) (take (length sent) its)
        \<and> (\<forall>cr. res = Inr cr \<longrightarrow>
              length sent = length its
              \<and> map Inr cr = map Inr created @ map (created_id e) sent)"
proof (induction its arbitrary: created s)
  case Nil
  then show ?case by auto
next
  case (Cons it its)
  show ?case
  proof (cases "issue_post e tok ow rp it")
    case (Inl ex)
    then have "res = Inl ex \<and> s' = s"
      using Cons.prems by (auto simp: issue_post_def split: sum.splits)
    then show ?thesis
      by (intro exI [of _ "[]"]) simp
  next
    case (Inr rq)
    then obtain body title where bt: "issue_body e it = Inr body" "dict_getitem it ''title'' = Inr title"
      "rq = issue_request (py_strip tok) ow rp title body"
      by (auto simp: issue_post_def split: sum.splits)
    let ?s1 = "log (HttpPost rq) s"
    show ?thesis
    proof (cases "created_id e rq")
      case (Inl ex)
      then have "(\<exists>ex'. res = Inl ex') \<and> s' = ?s1"
        using Cons.prems bt
        by (auto simp: create_issue_eq created_id_def split: sum.splits)
      then show ?thesis
        using Inr by (intro exI [of _ "[rq]"]) auto
    next
      case u: (Inr u)
      then have step: "create_loop e tok ow rp its (created @ [u]) ?s1 = (res, s')"
        using Cons.prems bt
        by (auto simp: create_issue_eq created_id_def split: sum.splits)
      from Cons.IH [OF step] obtain sent where
        sent: "trace s' = trace ?s1 @ map HttpPost sent" "length sent \<le> length its"
          "map Inr sent = map (issue_post e tok ow rp) (take (length sent) its)"
          "\<forall>cr. res = Inr cr \<longrightarrow>
              length sent = length its
              \<and> map Inr cr = map Inr (created @ [u]) @ map (created_id e) sent"
        by blast
      show ?thesis
        using sent Inr u by (intro exI [of _ "rq # sent"]) auto
    qed
  qed
qed


lemma posts_append: "posts (xs @ ys) = posts xs @ posts ys"
  by (induction xs rule: posts.induct) simp_all

lemma posts_map_HttpPost: "posts (map HttpPost rqs) = rqs"
  by (induction rqs) simp_all

text \<open>
  C10. The publish entry point sends the tracker one request per issue record, in order,
  for at most the first five records: the requests are those of a prefix of the supplied
  list, of length at most 5, so that of seven records the sixth and seventh are never sent.
  When it returns, all of the first five (or all records, if fewer) were sent, and the
  identifiers returned are those read from the tracker's answers, in the order sent.
\<close>

theorem create_issues_first_five:
  "create_issues e req s = (res, s') \<longrightarrow>
     (\<exists>sent. trace s' = trace s @ map HttpPost sent
        \<and> posts (trace s') = posts (trace s) @ sent
        \<and> length sent \<le> 5 \<and> length sent \<le> length (cir_issues req)
        \<and> (\<forall>owner repo. parse_repo (check_bracketed_host e) (cir_repo_url req) = Inr (owner, repo) \<longrightarrow>
              map Inr sent =
                map (issue_post e (cir_github_token req) owner repo)
                  (take (length sent) (cir_issues req)))
        \<and> (\<forall>created. res = Inr created \<longrightarrow>
              length sent = min 5 (length (cir_issues req))
              \<and> map Inr created = map (created_id e) sent))"
proof
  assume run: "create_issues e req s = (res, s')"
  show "\<exists>sent. trace s' = trace s @ map HttpPost sent
        \<and> posts (trace s') = posts (trace s) @ sent
        \<and> length sent \<le> 5 \<and> length sent \<le> length (cir_issues req)
        \<and> (\<forall>owner repo. parse_repo (check_bracketed_host e) (cir_repo_url req) = Inr (owner, repo) \<longrightarrow>
              map Inr sent =
                map (issue_post e (cir_github_token req) owner repo)
                  (take (length sent) (cir_issues req)))
        \<and> (\<forall>created. res = Inr created \<longrightarrow>
              length sent = min 5 (length (cir_issues req))
              \<and> map Inr created = map (created_id e) sent)"
  proof (cases "parse_repo (check_bracketed_host e) (cir_repo_url req)")
    case (Inl ex)
    with run have "res = Inl ex \<and> s' = s"
      by (auto simp: create_issues_def)
    with Inl show ?thesis
      by (intro exI [of _ "[]"]) simp
  next
    case (Inr p)
    obtain owner repo where p: "p = (owner, repo)"
      by (cases p)
    from run Inr p have loop:
      "create_loop e (cir_github_token req) owner repo (take 5 (cir_issues req)) [] s = (res, s')"
      by (simp add: create_issues_def)
    from create_loop_sends [OF loop] obtain sent where
      sent: "trace s' = trace s @ map HttpPost sent"
        "length sent \<le> length (take 5 (cir_issues req))"
        "map Inr sent = map (issue_post e (cir_github_token req) owner repo)
           (take (length sent) (take 5 (cir_issues req)))"
        "\<forall>cr. res = Inr cr \<longrightarrow>
           length sent = length (take 5 (cir_issues req))
           \<and> map Inr cr = map Inr [] @ map (created_id e) sent"
      by blast
    from sent(2) have le: "length sent \<le> 5" "length sent \<le> length (cir_issues req)"
      by simp_all
    then have tk: "take (length sent) (take 5 (cir_issues req)) = take (length sent) (cir_issues req)"
      by (simp add: min_def)
    show ?thesis
      using sent(1) le sent(3) sent(4) Inr p
      by (intro exI [of _ sent]) (simp add: tk posts_append posts_map_HttpPost min_def)
  qed
qed

lemma request7_run:
  "create_issues env_ok request7 sys0 =
     (Inr (map (\<lambda>n. JStr (issue_url n)) [''1'', ''2'', ''3'', ''4'', ''5'']),
      \<lparr>existing = [], trace = map (\<lambda>n. HttpPost (request_for n)) [''1'', ''2'', ''3'', ''4'', ''5'']\<rparr>)"
  by code_simp

theorem create_issues_first_five_witness:
  "length (cir_issues request7) = 7
   \<and> fst (create_issues env_ok request7 sys0) =
        Inr (map (\<lambda>n. JStr (issue_url n)) [''1'', ''2'', ''3'', ''4'', ''5''])
   \<and> posts (trace (snd (create_issues env_ok request7 sys0))) =
        map request_for [''1'', ''2'', ''3'', ''4'', ''5'']
   \<and> length (posts (trace (snd (create_issues env_ok request7 sys0)))) \<le> 5"
proof -
  have n: "length (cir_issues request7) = 7"
    by (simp add: request7_def)
  have p: "posts (trace (snd (create_issues env_ok request7 sys0))) =
        map request_for [''1'', ''2'', ''3'', ''4'', ''5'']"
    by (simp add: request7_run)
  from create_issues_first_five [of env_ok request7 sys0, THEN mp, OF request7_run]
  obtain sent where "posts
      (trace \<lparr>existing = [], trace = map (\<lambda>n. HttpPost (request_for n)) [''1'', ''2'', ''3'', ''4'', ''5'']\<rparr>)
        = posts (trace sys0) @ sent" "length sent \<le> 5"
    by blast
  then have "length (posts (trace (snd (create_issues env_ok request7 sys0)))) \<le> 5"
    unfolding p by (simp add: sys0_def)
  with n p show ?thesis
    by (simp add: request7_run)
qed

section \<open>The review requester\<close>

lemma conforms_SString: "conforms SString v \<Longrightarrow> \<exists>s. v = JStr s"
  by (cases v) simp_all

lemma conforms_SEnum: "conforms (SEnum vs) v \<Longrightarrow> \<exists>s. v = JStr s \<and> s \<in> set vs"
  by (cases v) simp_all

lemma conforms_SArray:
  "conforms (SArray item mn mx) v \<Longrightarrow>
     \<exists>xs. v = JArr xs \<and> at_least mn (length xs) \<and> at_most mx (length xs)
        \<and> list_all (conforms item) xs"
  by (cases v) simp_all

lemma conforms_SObject:
  "conforms (SObject props req additional) v \<Longrightarrow>
     \<exists>d. v = JObj d \<and> list_all (dict_has d) req
        \<and> list_all (\<lambda>(k, v). case map_of props k of
                           Some sch \<Rightarrow> conforms sch v
                         | None \<Rightarrow> additional) d"
  by (cases v) simp_all

lemma conforms_entry:
  assumes "list_all (\<lambda>(k, v). case map_of props k of
                           Some sch \<Rightarrow> conforms sch v
                         | None \<Rightarrow> additional) d"
    and "map_of d k = Some v" and "map_of props k = Some sch"
  shows "conforms sch v"
proof -
  have "(k, v) \<in> set d"
    using assms(2) by (rule map_of_SomeD)
  with assms(1,3) show ?thesis
    by (auto simp: list_all_iff)
qed

lemma conforms_issue_shape:
  assumes "conforms issue_schema v"
  shows "issue_shape v"
proof -
  let ?props = "[(''title'', SString), (''severity'', SEnum SEVERITIES),
                 (''evidence'', SString), (''fix'', SString)]"
  let ?entry = "\<lambda>(k, v). case map_of ?props k of Some sch \<Rightarrow> conforms sch v | None \<Rightarrow> False"
  from assms obtain d where d: "v = JObj d" "list_all (dict_has d) ISSUE_FIELDS"
    "list_all ?entry d"
    unfolding issue_schema_def by (blast dest: conforms_SObject)
  have keys1: "set ISSUE_FIELDS \<subseteq> set (map fst d)"
  proof
    fix k assume "k \<in> set ISSUE_FIELDS"
    with d(2) have "dict_has d k" by (simp add: list_all_iff)
    then obtain x where "map_of d k = Some x" by (auto simp: dict_has_def)
    then have "(k, x) \<in> set d" by (rule map_of_SomeD)
    then show "k \<in> set (map fst d)" by force
  qed
  have keys2: "set (map fst d) \<subseteq> set ISSUE_FIELDS"
  proof
    fix k assume "k \<in> set (map fst d)"
    then obtain x where kx: "(k, x) \<in> set d" by auto
    from d(3) have "\<forall>kv \<in> set d. ?entry kv" unfolding list_all_iff .
    then have "?entry (k, x)" using kx by (rule bspec)
    then have "map_of ?props k \<noteq> None" unfolding prod.case by (cases "map_of ?props k") simp_all
    then show "k \<in> set ISSUE_FIELDS"
      by (simp add: ISSUE_FIELDS_def split: if_splits)
  qed
  have str: "string_field d k" if "k \<in> set ISSUE_FIELDS" for k
  proof -
    from that d(2) have "dict_has d k" by (simp add: list_all_iff)
    then obtain x where x: "map_of d k = Some x" by (auto simp: dict_has_def)
    from that obtain sch where sch: "map_of ?props k = Some sch" "sch = SString \<or> sch = SEnum SEVERITIES"
      by (auto simp: ISSUE_FIELDS_def)
    from conforms_entry [OF d(3) x sch(1)] sch(2) obtain s where "x = JStr s"
      by (auto dest: conforms_SString conforms_SEnum)
    with x show ?thesis by (simp add: string_field_def)
  qed
  have sev: "severity_ok d"
  proof -
    from d(2) have "dict_has d ''severity''" by (simp add: list_all_iff ISSUE_FIELDS_def)
    then obtain x where x: "map_of d ''severity'' = Some x" by (auto simp: dict_has_def)
    have "map_of ?props ''severity'' = Some (SEnum SEVERITIES)" by simp
    from conforms_entry [OF d(3) x this] obtain s where "x = JStr s" "s \<in> set SEVERITIES"
      by (auto dest: conforms_SEnum)
    with x show ?thesis by (simp add: severity_ok_def)
  qed
  show ?thesis
    using keys1 keys2 str sev by (simp add: issue_shape_def d(1) list_all_iff)
qed

lemma conforms_review_shape:
  assumes "conforms REVIEW_SCHEMA j"
  shows "review_shape j"
proof -
  let ?props = "[(''one_liner'', SString), (''top_5'', SArray issue_schema (Some 5) (Some 5)),
        (''next_7_days_plan'', SArray SString None None)]"
  let ?entry = "\<lambda>(k, v). case map_of ?props k of Some sch \<Rightarrow> conforms sch v | None \<Rightarrow> False"
  from assms obtain d where d: "j = JObj d"
    "list_all (dict_has d) [''one_liner'', ''top_5'', ''next_7_days_plan'']" "list_all ?entry d"
    unfolding REVIEW_SCHEMA_def issue_schema_def [symmetric] by (blast dest: conforms_SObject)
  from d(2) have "dict_has d ''top_5''" by simp
  then obtain x where x: "map_of d ''top_5'' = Some x" by (auto simp: dict_has_def)
  have "map_of ?props ''top_5'' = Some (SArray issue_schema (Some 5) (Some 5))" by simp
  from conforms_entry [OF d(3) x this] obtain xs where xs: "x = JArr xs"
    "at_least (Some 5) (length xs)" "at_most (Some 5) (length xs)" "list_all (conforms issue_schema) xs"
    by (blast dest: conforms_SArray)
  have "list_all issue_shape xs"
    using xs(4) by (auto simp: list_all_iff intro: conforms_issue_shape)
  with xs(1-3) x show ?thesis
    by (simp add: review_shape_def top_5_def d(1))
qed

lemma call_ai_review_result:
  "(fst (call_ai_review e repo_url files kc s) = Inr j) =
     (\<exists>k t. openai_api_key e = Some k \<and> k \<noteq> []
        \<and> responses_create e (review_request k repo_url files kc) = Inr t
        \<and> json_loads e t = Inr j)"
  by (auto simp: call_ai_review_def Let_def split: option.splits sum.splits)


text \<open>
  C3 (as amended). \<open>call_ai_review\<close> returns a value exactly when the credentials are
  present, the provider answers, and \<open>json.loads\<close> reads the answer; the value is whatever
  \<open>json.loads\<close> read, and the call checks nothing of it. The request asks the provider
  for strict enforcement of \<open>REVIEW_SCHEMA\<close>, and every value that validates against that
  schema has exactly five issue records, each with exactly the fields title, severity,
  evidence and fix, all strings, the severity one of critical, high, medium, low. That the
  strings are not empty is enforced nowhere.
\<close>

theorem call_ai_review_returns:
  "(fst (call_ai_review e repo_url files kc s) = Inr j) =
     (\<exists>k t. openai_api_key e = Some k \<and> k \<noteq> []
        \<and> responses_create e (review_request k repo_url files kc) = Inr t
        \<and> json_loads e t = Inr j)
   \<and> rq_schema (review_request api_key repo_url files kc) = REVIEW_SCHEMA
   \<and> rq_strict (review_request api_key repo_url files kc)
   \<and> (conforms REVIEW_SCHEMA j \<longrightarrow> review_shape j)"
  using conforms_review_shape [of j]
  by (simp add: call_ai_review_result review_request_def Let_def)

lemma review_ok_conforms: "conforms REVIEW_SCHEMA review_ok"
  by code_simp

theorem call_ai_review_returns_witness:
  "fst (call_ai_review env_ok ''https://github.com/o/r'' [''./README.md'', ''src/app.py'']
          [(''README.md'', ''# demo'')] sys0) = Inr review_ok
   \<and> conforms REVIEW_SCHEMA review_ok \<and> review_shape review_ok"
proof -
  have k: "openai_api_key env_ok = Some ''sk-test'' \<and> ''sk-test'' \<noteq> []"
    by (simp add: env_ok_def)
  have t: "responses_create env_ok (review_request ''sk-test'' ''https://github.com/o/r''
      [''./README.md'', ''src/app.py''] [(''README.md'', ''# demo'')]) = Inr (json_text review_ok)"
    by (simp add: env_ok_def)
  have l: "json_loads env_ok (json_text review_ok) = Inr review_ok"
    by code_simp
  note T = call_ai_review_returns [of env_ok "''https://github.com/o/r''"
      "[''./README.md'', ''src/app.py'']" "[(''README.md'', ''# demo'')]" sys0 review_ok "''sk-test''"]
  have a: "fst (call_ai_review env_ok ''https://github.com/o/r'' [''./README.md'', ''src/app.py'']
          [(''README.md'', ''# demo'')] sys0) = Inr review_ok"
    using T [THEN conjunct1] k t l by blast
  have b: "review_shape review_ok"
    using T [THEN conjunct2, THEN conjunct2, THEN conjunct2, THEN mp, OF review_ok_conforms] .
  show ?thesis
    using a b review_ok_conforms by simp
qed

text \<open>
  C3 as stated fails: a provider answer that validates against the schema, with empty
  title, evidence and fix in its first issue, is returned; and so is an answer off the
  schema, with no issue at all, when the provider sends one.
\<close>

theorem call_ai_review_unvalidated_counterexample:
  "conforms REVIEW_SCHEMA review_empty_fields
   \<and> fst (call_ai_review env_terse ''https://github.com/o/r'' [''./README.md'', ''src/app.py'']
          [(''README.md'', ''# demo'')] sys0) = Inr review_empty_fields
   \<and> \<not> review_contract review_empty_fields
   \<and> fst (call_ai_review env_off_schema ''https://github.com/o/r'' [''./README.md'', ''src/app.py'']
          [(''README.md'', ''# demo'')] sys0) = Inr moved_body
   \<and> \<not> review_contract moved_body"
  by code_simp

section \<open>The analyze entry point\<close>

lemma startswith_append: "startswith p s \<Longrightarrow> \<exists>r. s = p @ r"
  by (induction p s rule: startswith.induct) auto

lemma urlsplit_github_any:
  "\<exists>r. urlsplit f (''https://github.com/'' @ p) = Inr r"
proof -
  define q where "q = filter (\<lambda>c. \<not> is_unsafe_byte c) p"
  define u where "u = ''https://github.com/'' @ p"
  define u' where "u' = ''https://github.com/'' @ q"
  define v where "v = ''//github.com/'' @ q"
  define w where "w = CHR ''/'' # q"
  have l: "lstrip_chars is_c0_or_space u = u"
    by (simp add: lstrip_chars_def is_c0_or_space_def u_def)
  have u1: "filter (\<lambda>c. \<not> is_unsafe_byte c) u = u'"
    by (simp add: is_unsafe_byte_def u_def u'_def q_def)
  have s: "split_scheme u' = (''https'', v)"
    by (simp add: split_scheme_def is_ascii_alpha_def scheme_chars_def py_lower_def
        lower_char_def Let_def u'_def v_def)
  have t: "take 2 v = ''//''"
    by (simp add: v_def)
  have n: "splitnetloc v = (''github.com'', w)"
    by (simp add: splitnetloc_def is_netloc_delim_def v_def w_def)
  have "\<exists>r. urlsplit f u = Inr r"
    by (simp add: urlsplit_def l u1 s n t split: prod.splits)
  then show ?thesis
    by (simp add: u_def)
qed

lemma urlparse_github_any:
  "\<exists>r. urlparse f (''https://github.com/'' @ p) = Inr r"
proof -
  from urlsplit_github_any obtain r where "urlsplit f (''https://github.com/'' @ p) = Inr r"
    by blast
  then show ?thesis
    by (simp add: urlparse_def split: prod.splits)
qed

lemma safe_repo_name_github:
  assumes "startswith GITHUB_PREFIX u"
  shows "\<exists>name. safe_repo_name e u = Inr name"
proof -
  from assms obtain p where "u = ''https://github.com/'' @ p"
    unfolding GITHUB_PREFIX_def by (blast dest: startswith_append)
  moreover obtain r where "urlparse (check_bracketed_host e) (''https://github.com/'' @ p) = Inr r"
    using urlparse_github_any by blast
  ultimately show ?thesis
    by (simp add: safe_repo_name_def Let_def)
qed

lemma mkdtemp_Inr:
  assumes "mkdtemp e pre s = (Inr p, s1)"
  shows "p \<notin> set (existing s)" and "s1 = log (Mkdtemp p) (s\<lparr>existing := existing s @ [p]\<rparr>)"
proof -
  from assms obtain p' where f: "find (\<lambda>p. p \<notin> set (existing s))
             (map (\<lambda>n. path_join (tmp_dir e) (pre @ n)) (tmp_names e)) = Some p'"
    by (auto simp: mkdtemp_def split: option.splits)
  with assms have "p' = p" and s1: "s1 = log (Mkdtemp p) (s\<lparr>existing := existing s @ [p]\<rparr>)"
    by (auto simp: mkdtemp_def)
  with f show "p \<notin> set (existing s)"
    by (auto simp: find_Some_iff)
  show "s1 = log (Mkdtemp p) (s\<lparr>existing := existing s @ [p]\<rparr>)"
    by (rule s1)
qed

lemma mkdtemp_Inl: "mkdtemp e pre s = (Inl ex, s1) \<Longrightarrow> s1 = s"
  by (auto simp: mkdtemp_def split: option.splits)

lemma existing_log [simp]: "existing (log ev s) = existing s"
  by (simp add: log_def)

lemma rmtree_trace: "trace (snd (rmtree e p s)) = trace s @ [Rmtree p]"
  by (simp add: rmtree_def split: rm_outcome.splits)

lemma rmtree_fst:
  "fst (rmtree e p s) = (case rmtree_outcome e p of Raised ex \<Rightarrow> Some ex | _ \<Rightarrow> None)"
  by (simp add: rmtree_def split: rm_outcome.splits)

lemma rmtree_Removed:
  assumes "rmtree_outcome e p = Removed"
  shows "p \<notin> set (existing (snd (rmtree e p s)))"
    and "list_all (\<lambda>q. \<not> startswith (p @ ''/'') q) (existing (snd (rmtree e p s)))"
  using assms by (simp_all add: rmtree_def list_all_iff)

lemma rmtree_kept:
  assumes "rmtree_outcome e p \<noteq> Removed"
  shows "existing (snd (rmtree e p s)) = existing s"
  using assms by (simp add: rmtree_def split: rm_outcome.splits)

lemma clone_trace: "clone e u d s = (r, s1) \<Longrightarrow> trace s1 = trace s @ [CloneFrom u d]"
  by (auto simp: clone_def split: sum.splits)

lemma call_ai_review_trace:
  "call_ai_review e u f k s = (r, s1) \<Longrightarrow> \<exists>evs. trace s1 = trace s @ evs"
  by (auto simp: call_ai_review_def Let_def split: sum.splits if_splits)


lemma analyze_body_trace:
  "analyze_body e u d s = (r, s1) \<Longrightarrow> \<exists>evs. trace s1 = trace s @ CloneFrom u d # evs"
  by (auto simp: analyze_body_def Let_def split: sum.splits prod.splits exn.splits
      dest!: clone_trace call_ai_review_trace)

lemma analyze_body_not_error:
  "fst (analyze_body e u d s) \<noteq> Inr (ErrorResponse m)"
  by (auto simp: analyze_body_def Let_def split: sum.splits prod.splits exn.splits)


lemma clone_existing: "clone e u d s = (r, s1) \<Longrightarrow> set (existing s) \<subseteq> set (existing s1)"
  by (auto simp: clone_def split: sum.splits)

lemma call_ai_review_existing: "call_ai_review e u f k s = (r, s1) \<Longrightarrow> existing s1 = existing s"
  by (auto simp: call_ai_review_def Let_def split: sum.splits if_splits)

lemma analyze_body_existing:
  "analyze_body e u d s = (r, s1) \<Longrightarrow> set (existing s) \<subseteq> set (existing s1)"
  by (auto simp: analyze_body_def Let_def split: sum.splits prod.splits exn.splits
      dest!: clone_existing call_ai_review_existing)

lemma analyze_repo_run:
  assumes "startswith GITHUB_PREFIX (py_strip url)"
    and "mkdtemp e ''repodoctor_'' s = (Inr tmp_root, s1)"
    and "safe_repo_name e (py_strip url) = Inr name"
    and "analyze_body e (py_strip url) (path_join tmp_root name) s1 = (r, s2)"
  shows "analyze_repo e url s =
     (case fst (rmtree e tmp_root s2) of Some ex \<Rightarrow> Inl ex | None \<Rightarrow> r,
      snd (rmtree e tmp_root s2))"
  using assms by (simp add: analyze_repo_def Let_def split: prod.splits option.splits)

lemma analyze_repo_left:
  assumes pre: "startswith GITHUB_PREFIX (py_strip url)"
    and mk: "mkdtemp e ''repodoctor_'' s = (Inr tmp_root, s1)"
  shows "last (trace (snd (analyze_repo e url s))) = Rmtree tmp_root"
    and "rmtree_outcome e tmp_root = Removed \<Longrightarrow>
           tmp_root \<notin> set (existing (snd (analyze_repo e url s)))
           \<and> list_all (\<lambda>q. \<not> startswith (tmp_root @ ''/'') q)
                (existing (snd (analyze_repo e url s)))"
    and "rmtree_outcome e tmp_root \<noteq> Removed \<Longrightarrow>
           tmp_root \<in> set (existing (snd (analyze_repo e url s)))"
    and "rmtree_outcome e tmp_root = Raised ex \<Longrightarrow> fst (analyze_repo e url s) = Inl ex"
proof -
  from pre obtain name where name: "safe_repo_name e (py_strip url) = Inr name"
    by (blast dest: safe_repo_name_github)
  obtain r s2 where body: "analyze_body e (py_strip url) (path_join tmp_root name) s1 = (r, s2)"
    by (cases "analyze_body e (py_strip url) (path_join tmp_root name) s1")
  note run = analyze_repo_run [OF pre mk name body]
  have "tmp_root \<in> set (existing s1)"
    using mkdtemp_Inr(2) [OF mk] by simp
  with analyze_body_existing [OF body] have there: "tmp_root \<in> set (existing s2)"
    by blast
  show "last (trace (snd (analyze_repo e url s))) = Rmtree tmp_root"
    by (simp add: run rmtree_trace)
  show "tmp_root \<notin> set (existing (snd (analyze_repo e url s)))
           \<and> list_all (\<lambda>q. \<not> startswith (tmp_root @ ''/'') q)
                (existing (snd (analyze_repo e url s)))"
    if "rmtree_outcome e tmp_root = Removed"
    using rmtree_Removed [OF that, of s2] by (simp add: run)
  show "tmp_root \<in> set (existing (snd (analyze_repo e url s)))"
    if "rmtree_outcome e tmp_root \<noteq> Removed"
    using rmtree_kept [OF that, of s2] there by (simp add: run)
  show "fst (analyze_repo e url s) = Inl ex"
    if "rmtree_outcome e tmp_root = Raised ex"
    using that by (simp add: run rmtree_fst)
qed

text \<open>
  C4 (as amended). When the URL, stripped of surrounding white space, does not start with
  \<open>https://github.com/\<close>, the analyze entry point returns the structured error and leaves
  the state as it was: no call to the file system or the network. This prefix test is the
  whole validation: every URL with the prefix, whatever its path, gets no structured error;
  once its scratch directory is created, the clone is attempted on it.
\<close>

theorem analyze_rejects_bad_prefix:
  "(\<not> startswith GITHUB_PREFIX (py_strip url) \<longrightarrow>
      analyze_repo e url s = (Inr (ErrorResponse ''Invalid GitHub repo URL''), s))
   \<and> (startswith GITHUB_PREFIX (py_strip url) \<longrightarrow>
        (\<forall>m. fst (analyze_repo e url s) \<noteq> Inr (ErrorResponse m))
        \<and> (\<forall>tmp_root s1. mkdtemp e ''repodoctor_'' s = (Inr tmp_root, s1) \<longrightarrow>
              (\<exists>dest evs. trace (snd (analyze_repo e url s)) =
                  trace s @ [Mkdtemp tmp_root, CloneFrom (py_strip url) dest] @ evs)))"
proof (intro conjI impI allI)
  assume "\<not> startswith GITHUB_PREFIX (py_strip url)"
  then show "analyze_repo e url s = (Inr (ErrorResponse ''Invalid GitHub repo URL''), s)"
    by (simp add: analyze_repo_def Let_def)
next
  fix m
  assume pre: "startswith GITHUB_PREFIX (py_strip url)"
  then obtain name where name: "safe_repo_name e (py_strip url) = Inr name"
    by (blast dest: safe_repo_name_github)
  obtain r s1 where mk: "mkdtemp e ''repodoctor_'' s = (r, s1)"
    by (cases "mkdtemp e ''repodoctor_'' s")
  show "fst (analyze_repo e url s) \<noteq> Inr (ErrorResponse m)"
  proof (cases r)
    case (Inl ex)
    with pre mk show ?thesis
      by (simp add: analyze_repo_def Let_def)
  next
    case (Inr tmp_root)
    with mk have mk': "mkdtemp e ''repodoctor_'' s = (Inr tmp_root, s1)"
      by simp
    obtain b s2 where body: "analyze_body e (py_strip url) (path_join tmp_root name) s1 = (b, s2)"
      by (cases "analyze_body e (py_strip url) (path_join tmp_root name) s1")
    have "b \<noteq> Inr (ErrorResponse m)"
      using analyze_body_not_error [of e "py_strip url" "path_join tmp_root name" s1 m] body
      by simp
    then show ?thesis
      by (simp add: analyze_repo_run [OF pre mk' name body] split: option.splits)
  qed
next
  fix tmp_root s1
  assume pre: "startswith GITHUB_PREFIX (py_strip url)"
    and mk: "mkdtemp e ''repodoctor_'' s = (Inr tmp_root, s1)"
  from pre obtain name where name: "safe_repo_name e (py_strip url) = Inr name"
    by (blast dest: safe_repo_name_github)
  let ?dest = "path_join tmp_root name"
  obtain r s2 where body: "analyze_body e (py_strip url) ?dest s1 = (r, s2)"
    by (cases "analyze_body e (py_strip url) ?dest s1")
  from analyze_body_trace [OF body] obtain evs where
    evs: "trace s2 = trace s1 @ CloneFrom (py_strip url) ?dest # evs"
    by blast
  have "trace s1 = trace s @ [Mkdtemp tmp_root]"
    using mkdtemp_Inr(2) [OF mk] by simp
  with evs have "trace (snd (analyze_repo e url s)) =
      trace s @ [Mkdtemp tmp_root, CloneFrom (py_strip url) ?dest] @ (evs @ [Rmtree tmp_root])"
    by (simp add: analyze_repo_run [OF pre mk name body] rmtree_trace)
  then show "\<exists>dest evs. trace (snd (analyze_repo e url s)) =
      trace s @ [Mkdtemp tmp_root, CloneFrom (py_strip url) dest] @ evs"
    by blast
qed

text \<open>
  C2 (as amended). For a URL that passes the trusted-host test, removing the scratch
  directory that \<open>mkdtemp\<close> created for the request (a path that did not exist before) is
  the last thing analyze does, whether it returns a result or an exception of the clone or
  of the review propagates. When the removal succeeds, the directory does not exist when
  analyze is left, nor does anything below it. When the removal fails, the directory still
  exists: a failure that \<open>ignore_errors\<close> swallows goes unreported, and an exception that
  \<open>shutil.rmtree\<close> raises all the same leaves analyze in place of its result.
\<close>

theorem scratch_directory_removal:
  "startswith GITHUB_PREFIX (py_strip url) \<and> mkdtemp e ''repodoctor_'' s = (Inr tmp_root, s1) \<longrightarrow>
     tmp_root \<notin> set (existing s)
     \<and> tmp_root \<in> set (existing s1)
     \<and> last (trace (snd (analyze_repo e url s))) = Rmtree tmp_root
     \<and> (rmtree_outcome e tmp_root = Removed \<longrightarrow>
          tmp_root \<notin> set (existing (snd (analyze_repo e url s)))
          \<and> list_all (\<lambda>q. \<not> startswith (tmp_root @ ''/'') q)
               (existing (snd (analyze_repo e url s))))
     \<and> (rmtree_outcome e tmp_root \<noteq> Removed \<longrightarrow>
          tmp_root \<in> set (existing (snd (analyze_repo e url s))))
     \<and> (\<forall>ex. rmtree_outcome e tmp_root = Raised ex \<longrightarrow> fst (analyze_repo e url s) = Inl ex)"
proof
  assume h: "startswith GITHUB_PREFIX (py_strip url) \<and> mkdtemp e ''repodoctor_'' s = (Inr tmp_root, s1)"
  then have pre: "startswith GITHUB_PREFIX (py_strip url)"
    and mk: "mkdtemp e ''repodoctor_'' s = (Inr tmp_root, s1)"
    by simp_all
  have fresh: "tmp_root \<notin> set (existing s)" "tmp_root \<in> set (existing s1)"
    using mkdtemp_Inr [OF mk] by simp_all
  show "tmp_root \<notin> set (existing s)
     \<and> tmp_root \<in> set (existing s1)
     \<and> last (trace (snd (analyze_repo e url s))) = Rmtree tmp_root
     \<and> (rmtree_outcome e tmp_root = Removed \<longrightarrow>
          tmp_root \<notin> set (existing (snd (analyze_repo e url s)))
          \<and> list_all (\<lambda>q. \<not> startswith (tmp_root @ ''/'') q)
               (existing (snd (analyze_repo e url s))))
     \<and> (rmtree_outcome e tmp_root \<noteq> Removed \<longrightarrow>
          tmp_root \<in> set (existing (snd (analyze_repo e url s))))
     \<and> (\<forall>ex. rmtree_outcome e tmp_root = Raised ex \<longrightarrow> fst (analyze_repo e url s) = Inl ex)"
    using fresh analyze_repo_left [OF pre mk] by blast
qed


theorem analyze_rejects_bad_prefix_witness:
  "analyze_repo env_ok ''https://gitlab.com/owner/repo'' sys1 =
     (Inr (ErrorResponse ''Invalid GitHub repo URL''), sys1)
   \<and> startswith GITHUB_PREFIX (py_strip '' https://github.com/owner '')
   \<and> fst (analyze_repo env_ok '' https://github.com/owner '' sys0)
        \<noteq> Inr (ErrorResponse ''Invalid GitHub repo URL'')"
proof -
  have n: "\<not> startswith GITHUB_PREFIX (py_strip ''https://gitlab.com/owner/repo'')"
    by code_simp
  have y: "startswith GITHUB_PREFIX (py_strip '' https://github.com/owner '')"
    by code_simp
  have a: "analyze_repo env_ok ''https://gitlab.com/owner/repo'' sys1 =
     (Inr (ErrorResponse ''Invalid GitHub repo URL''), sys1)"
    using analyze_rejects_bad_prefix [of "''https://gitlab.com/owner/repo''" env_ok sys1,
        THEN conjunct1, THEN mp, OF n] .
  have b: "fst (analyze_repo env_ok '' https://github.com/owner '' sys0)
        \<noteq> Inr (ErrorResponse ''Invalid GitHub repo URL'')"
    using analyze_rejects_bad_prefix [of "'' https://github.com/owner ''" env_ok sys0,
        THEN conjunct2, THEN mp, OF y, THEN conjunct1, THEN spec] .
  show ?thesis
    using a y b by simp
qed

text \<open>
  C4 as stated fails: \<open>https://github.com/owner\<close>, a single-segment path that
  \<open>parse_repo\<close> rejects, passes the prefix test; a scratch directory is created, the
  clone is attempted, and its failure leaves the entry point as an exception.
\<close>

theorem analyze_single_segment_counterexample:
  "parse_repo no_bracketed_host ''https://github.com/owner'' =
     Inl (Exception ''ValueError'' ''Repo URL must look like https://github.com/owner/repo'')
   \<and> analyze_repo env_clone_fails ''https://github.com/owner'' sys0 =
       (Inl (Exception ''GitCommandError'' ''Cmd(git) failed due to: exit code(128)''),
        \<lparr>existing = [],
         trace = [Mkdtemp ''/tmp/repodoctor_x1'',
                  CloneFrom ''https://github.com/owner'' ''/tmp/repodoctor_x1/owner'',
                  Rmtree ''/tmp/repodoctor_x1'']\<rparr>)"
  by code_simp

lemma sample_prefix: "startswith GITHUB_PREFIX (py_strip ''https://github.com/o/r'')"
  by code_simp

lemma sample_mkdtemp:
  "mkdtemp env_ok ''repodoctor_'' sys1 =
     (Inr ''/tmp/repodoctor_x2'', snd (mkdtemp env_ok ''repodoctor_'' sys1))"
  "mkdtemp env_clone_fails ''repodoctor_'' sys1 =
     (Inr ''/tmp/repodoctor_x2'', snd (mkdtemp env_clone_fails ''repodoctor_'' sys1))"
  "mkdtemp env_no_key ''repodoctor_'' sys1 =
     (Inr ''/tmp/repodoctor_x2'', snd (mkdtemp env_no_key ''repodoctor_'' sys1))"
  "mkdtemp env_interrupted ''repodoctor_'' sys1 =
     (Inr ''/tmp/repodoctor_x2'', snd (mkdtemp env_interrupted ''repodoctor_'' sys1))"
  "mkdtemp env_stuck ''repodoctor_'' sys1 =
     (Inr ''/tmp/repodoctor_x2'', snd (mkdtemp env_stuck ''repodoctor_'' sys1))"
  by code_simp+

lemma deep_mkdtemp:
  "mkdtemp env_deep ''repodoctor_'' sys0 =
     (Inr ''/tmp/repodoctor_x1'', snd (mkdtemp env_deep ''repodoctor_'' sys0))"
  "mkdtemp env_deep_no_key ''repodoctor_'' sys0 =
     (Inr ''/tmp/repodoctor_x1'', snd (mkdtemp env_deep_no_key ''repodoctor_'' sys0))"
  by (simp_all add: mkdtemp_def env_deep_no_key_def env_deep_def env_ok_def sys0_def path_join_def
      endswith_def)

lemma sample_outcomes:
  "rmtree_outcome env_ok ''/tmp/repodoctor_x2'' = Removed"
  "rmtree_outcome env_clone_fails ''/tmp/repodoctor_x2'' = Removed"
  "rmtree_outcome env_no_key ''/tmp/repodoctor_x2'' = Removed"
  "rmtree_outcome env_interrupted ''/tmp/repodoctor_x2'' = Removed"
  "rmtree_outcome env_stuck ''/tmp/repodoctor_x2'' \<noteq> Removed"
  "rmtree_outcome env_deep ''/tmp/repodoctor_x1'' = Raised recursion_error"
  "rmtree_outcome env_deep_no_key ''/tmp/repodoctor_x1'' = Raised recursion_error"
  by (simp_all add: env_ok_def env_clone_fails_def env_no_key_def env_interrupted_def
      env_stuck_def env_deep_def env_deep_no_key_def)

theorem scratch_directory_removal_witness:
  "''/tmp/repodoctor_x2'' \<notin> set (existing (snd (analyze_repo env_ok ''https://github.com/o/r'' sys1)))
   \<and> ''/tmp/repodoctor_x2'' \<notin> set (existing (snd (analyze_repo env_clone_fails ''https://github.com/o/r'' sys1)))
   \<and> ''/tmp/repodoctor_x2'' \<notin> set (existing (snd (analyze_repo env_no_key ''https://github.com/o/r'' sys1)))
   \<and> ''/tmp/repodoctor_x2'' \<notin> set (existing (snd (analyze_repo env_interrupted ''https://github.com/o/r'' sys1)))
   \<and> fst (analyze_repo env_clone_fails ''https://github.com/o/r'' sys1) =
        Inl (Exception ''GitCommandError'' ''Cmd(git) failed due to: exit code(128)'')
   \<and> fst (analyze_repo env_interrupted ''https://github.com/o/r'' sys1) =
        Inl (BaseException ''KeyboardInterrupt'' '''')
   \<and> ''/tmp/repodoctor_x2'' \<in> set (existing (snd (analyze_repo env_stuck ''https://github.com/o/r'' sys1)))
   \<and> last (trace (snd (analyze_repo env_stuck ''https://github.com/o/r'' sys1))) =
        Rmtree ''/tmp/repodoctor_x2''
   \<and> fst (analyze_repo env_deep ''https://github.com/o/r'' sys0) = Inl recursion_error"
proof -
  note T = scratch_directory_removal [THEN mp, OF conjI, OF sample_prefix]
  note R = T [THEN conjunct2, THEN conjunct2, THEN conjunct2, THEN conjunct1, THEN mp, THEN conjunct1]
  have a: "''/tmp/repodoctor_x2'' \<notin> set (existing (snd (analyze_repo env_ok ''https://github.com/o/r'' sys1)))"
    using R [OF sample_mkdtemp(1) sample_outcomes(1)] .
  have b: "''/tmp/repodoctor_x2'' \<notin> set (existing (snd (analyze_repo env_clone_fails ''https://github.com/o/r'' sys1)))"
    using R [OF sample_mkdtemp(2) sample_outcomes(2)] .
  have c: "''/tmp/repodoctor_x2'' \<notin> set (existing (snd (analyze_repo env_no_key ''https://github.com/o/r'' sys1)))"
    using R [OF sample_mkdtemp(3) sample_outcomes(3)] .
  have d: "''/tmp/repodoctor_x2'' \<notin> set (existing (snd (analyze_repo env_interrupted ''https://github.com/o/r'' sys1)))"
    using R [OF sample_mkdtemp(4) sample_outcomes(4)] .
  have e: "fst (analyze_repo env_clone_fails ''https://github.com/o/r'' sys1) =
        Inl (Exception ''GitCommandError'' ''Cmd(git) failed due to: exit code(128)'')"
    "fst (analyze_repo env_interrupted ''https://github.com/o/r'' sys1) =
        Inl (BaseException ''KeyboardInterrupt'' '''')"
    by code_simp+
  have f: "''/tmp/repodoctor_x2'' \<in> set (existing (snd (analyze_repo env_stuck ''https://github.com/o/r'' sys1)))"
    using T [OF sample_mkdtemp(5), THEN conjunct2, THEN conjunct2, THEN conjunct2, THEN conjunct2,
        THEN conjunct1, THEN mp, OF sample_outcomes(5)] .
  have g: "last (trace (snd (analyze_repo env_stuck ''https://github.com/o/r'' sys1))) =
        Rmtree ''/tmp/repodoctor_x2''"
    using T [OF sample_mkdtemp(5), THEN conjunct2, THEN conjunct2, THEN conjunct1] .
  have h: "fst (analyze_repo env_deep ''https://github.com/o/r'' sys0) = Inl recursion_error"
    using T [OF deep_mkdtemp(1), THEN conjunct2, THEN conjunct2, THEN conjunct2, THEN conjunct2,
        THEN conjunct2, THEN spec, THEN mp, OF sample_outcomes(6)] .
  show ?thesis
    using a b c d e f g h by simp
qed

text \<open>
  C2 as stated fails: on a checkout 996 directories deep \<open>shutil.rmtree\<close> raises
  \<open>RecursionError\<close>, which \<open>ignore_errors\<close> does not swallow; the exception leaves analyze
  and the scratch directory still exists. It still exists, too, after a removal whose
  failure is ignored.
\<close>

theorem scratch_directory_left_counterexample:
  "startswith GITHUB_PREFIX (py_strip ''https://github.com/o/r'')
   \<and> clone_from env_deep ''https://github.com/o/r'' ''/tmp/repodoctor_x1/o__r'' = Inr (deep_tree 996)
   \<and> fst (analyze_repo env_deep ''https://github.com/o/r'' sys0) = Inl recursion_error
   \<and> ''/tmp/repodoctor_x1'' \<in> set (existing (snd (analyze_repo env_deep ''https://github.com/o/r'' sys0)))
   \<and> ''/tmp/repodoctor_x1'' \<in> set (existing (snd (analyze_repo env_stuck ''https://github.com/o/r'' sys0)))"
proof -
  have ne: "rmtree_outcome env_deep ''/tmp/repodoctor_x1'' \<noteq> Removed"
    by (simp add: sample_outcomes(6))
  have c: "clone_from env_deep ''https://github.com/o/r'' ''/tmp/repodoctor_x1/o__r'' = Inr (deep_tree 996)"
    by (simp add: env_deep_def)
  have stuck: "''/tmp/repodoctor_x1'' \<in> set (existing (snd (analyze_repo env_stuck ''https://github.com/o/r'' sys0)))"
    by code_simp
  show ?thesis
    using sample_prefix c stuck
      analyze_repo_left(4) [OF sample_prefix deep_mkdtemp(1) sample_outcomes(6)]
      analyze_repo_left(3) [OF sample_prefix deep_mkdtemp(1) ne]
    by simp
qed





end
